theory Spec2Isabelle
  imports Complex_Main
begin

section \<open>Python values, exceptions and arrays\<close>

text \<open>
  The module \<^verbatim>\<open>minimizators_collection.py\<close> works on numpy arrays of numbers. The
  collection never computes with a number except to negate it and to store it in an
  array, so the element type is a type variable \<open>'a\<close> of class \<open>uminus\<close>, and the
  conversion numpy applies to a number stored in an array is a parameter: whatever holds
  below holds for every choice of numbers and of conversion.

  Exceptions are values. \<open>UnboundLocalError\<close> is what Python raises when a local
  variable is read before any assignment, \<open>IndexError\<close> what an index out of range
  raises, and \<open>Raised\<close> stands for anything a Minimizator's own \<^verbatim>\<open>update\<close> raises.
\<close>

datatype py_error = UnboundLocalError | IndexError | Raised string

text \<open>
  An index \<open>i\<close> into a sequence of length \<open>n\<close> is valid for \<open>- n \<le> i < n\<close>; a
  negative one counts from the end. \<open>py_index\<close> gives the position read or written.
\<close>

definition py_index :: "nat \<Rightarrow> int \<Rightarrow> py_error + nat" where
  "py_index n i =
     (if i < - int n \<or> int n \<le> i then Inl IndexError
      else if i < 0 then Inr (nat (i + int n))
      else Inr (nat i))"

definition getitem :: "'a list \<Rightarrow> int \<Rightarrow> py_error + 'a" where
  "getitem xs i =
     (case py_index (length xs) i of
        Inl e \<Rightarrow> Inl e
      | Inr k \<Rightarrow> Inr (xs ! k))"

subsection \<open>The store\<close>

text \<open>
  Arrays are mutable objects, and \<^verbatim>\<open>update\<close> writes into one in place, so arrays live
  in a store: \<open>cells w r\<close> is the content of the array whose reference is \<open>r\<close>, and
  the references below \<open>next_ref w\<close> are the allocated ones. \<open>stdout w\<close> is what
  has been printed so far.

  \<^verbatim>\<open>update_minimizator\<close> prints three lines for a unit: its segment, its channel with
  the measured value, and the density before and after. A \<open>diag\<close> holds the five
  values that go into these lines, before they are formatted to three decimals.
\<close>

type_synonym ref = nat

record 'a diag =
  diag_segment :: int
  diag_value_name :: string
  diag_value :: 'a
  diag_density :: 'a
  diag_density_new :: 'a

record 'a world =
  cells :: "ref \<Rightarrow> 'a list"
  next_ref :: ref
  stdout :: "'a diag list"

definition alloc :: "'a list \<Rightarrow> 'a world \<Rightarrow> ref \<times> 'a world" where
  "alloc xs w =
     (next_ref w, w\<lparr>cells := (cells w)(next_ref w := xs), next_ref := Suc (next_ref w)\<rparr>)"

text \<open>\<^verbatim>\<open>a.copy()\<close>: a new array with the content of \<open>a\<close>.\<close>

definition array_copy :: "ref \<Rightarrow> 'a world \<Rightarrow> ref \<times> 'a world" where
  "array_copy r w = alloc (cells w r) w"

text \<open>\<^verbatim>\<open>- a\<close>: a new array, each element negated.\<close>

definition array_neg :: "ref \<Rightarrow> ('a::uminus) world \<Rightarrow> ref \<times> 'a world" where
  "array_neg r w = alloc (map uminus (cells w r)) w"

text \<open>
  \<^verbatim>\<open>a[i] = v\<close>: written in place, or \<open>IndexError\<close> with the store as it was. A numpy
  array has an element type (its dtype), and a value assigned into it is converted to
  that type: a float64 array keeps a float as it is, a float32 array rounds it, an
  integer array truncates it. \<open>astype\<close> is that conversion.
\<close>

definition setitem ::
  "('a \<Rightarrow> 'a) \<Rightarrow> ref \<Rightarrow> int \<Rightarrow> 'a \<Rightarrow> 'a world \<Rightarrow> py_error + 'a world"
where
  "setitem astype r i v w =
     (case py_index (length (cells w r)) i of
        Inl e \<Rightarrow> Inl e
      | Inr k \<Rightarrow> Inr (w\<lparr>cells := (cells w)(r := (cells w r)[k := astype v])\<rparr>))"

definition print :: "'a diag \<Rightarrow> 'a world \<Rightarrow> 'a world" where
  "print d w = w\<lparr>stdout := stdout w @ [d]\<rparr>"

section \<open>The Minimizator\<close>

text \<open>
  A minimization unit has a segment (1-indexed), a channel name and a state of its
  own, of a type \<open>'s\<close> this development knows nothing about.
\<close>

record 's minimizator =
  segment :: int
  value_name :: string
  internal :: 's

text \<open>
  Modelled from the spec: the class \<^verbatim>\<open>Minimizator\<close> of
  \<^verbatim>\<open>fibrosisoptimization/minimizators/minimizator.py\<close>, which the collection imports.
  A unit is "constructed from (segment_index, channel_tag)" and "exposes read-only
  segment and value_name"; the state it starts in is the parameter \<open>init\<close>.
\<close>

definition Minimizator :: "(int \<Rightarrow> string \<Rightarrow> 's) \<Rightarrow> int \<Rightarrow> string \<Rightarrow> 's minimizator" where
  "Minimizator init seg name = \<lparr>segment = seg, value_name = name, internal = init seg name\<rparr>"

text \<open>
  The unit's \<^verbatim>\<open>update(density, value)\<close> is a parameter of everything below: a function
  of the unit and the two numbers that gives the new density, or the exception raised,
  and the state the unit is left in. The segment and the channel of a unit never change.
\<close>

type_synonym ('a, 's) unit_update = "'s minimizator \<Rightarrow> 'a \<Rightarrow> 'a \<Rightarrow> (py_error + 'a) \<times> 's"

section \<open>The collection\<close>

record 's minimizators_collection =
  density_step_tol :: real
  minimizators :: "'s minimizator list"

record surface_data =
  ptp_mean_per_segment :: ref
  lat_mean_per_segment :: ref

subsection \<open>Construction\<close>

text \<open>
  \<^verbatim>\<open>for segment, value_name in zip(segments, value_names): minimizators.append(...)\<close>.
  \<^verbatim>\<open>zip\<close> stops as soon as one of its arguments is exhausted.
\<close>

fun make_minimizators_loop ::
  "(int \<Rightarrow> string \<Rightarrow> 's) \<Rightarrow> 's minimizator list \<Rightarrow> int list \<Rightarrow> string list \<Rightarrow> 's minimizator list"
where
  "make_minimizators_loop init acc (seg # segs) (name # names) =
     make_minimizators_loop init (acc @ [Minimizator init seg name]) segs names"
| "make_minimizators_loop init acc _ _ = acc"

definition make_minimizators ::
  "(int \<Rightarrow> string \<Rightarrow> 's) \<Rightarrow> int list \<Rightarrow> string list \<Rightarrow> 's minimizator list"
where
  "make_minimizators init segs names = make_minimizators_loop init [] segs names"

definition default_density_step_tol :: real where
  "default_density_step_tol = 1 / 100"

definition MinimizatorsCollection ::
  "(int \<Rightarrow> string \<Rightarrow> 's) \<Rightarrow> int list \<Rightarrow> string list \<Rightarrow> real \<Rightarrow> 's minimizators_collection"
where
  "MinimizatorsCollection init segs names tol =
     \<lparr>density_step_tol = tol, minimizators = make_minimizators init segs names\<rparr>"

subsection \<open>Accessors\<close>

text \<open>The two properties are list comprehensions over \<^verbatim>\<open>self.minimizators\<close>.\<close>

definition segments :: "'s minimizators_collection \<Rightarrow> int list" where
  "segments c = [segment minimizator. minimizator \<leftarrow> minimizators c]"

definition value_names :: "'s minimizators_collection \<Rightarrow> string list" where
  "value_names c = [value_name minimizator. minimizator \<leftarrow> minimizators c]"

subsection \<open>Updating one unit\<close>

text \<open>
  The local variable \<^verbatim>\<open>values\<close> is bound by two independent \<^verbatim>\<open>if\<close> statements, so it
  is an option: \<open>None\<close> while unbound. Every step that can raise is a case
  distinction, in the order of the source: reading \<^verbatim>\<open>values\<close>, indexing it, indexing
  \<^verbatim>\<open>densities\<close>, the unit's own update. The lines are printed only after the unit's
  update has returned.

  The result has the value returned or the exception, the unit as it is afterwards,
  and the store.
\<close>

definition update_minimizator ::
  "('a::uminus, 's) unit_update \<Rightarrow> 's minimizator \<Rightarrow> ref \<Rightarrow> surface_data \<Rightarrow> 'a world
     \<Rightarrow> (py_error + 'a \<times> 'a) \<times> 's minimizator \<times> 'a world"
where
  "update_minimizator unit_update minimizator densities surface_data w =
     (let (values, w) =
            (if value_name minimizator = ''PtP''
             then (Some (ptp_mean_per_segment surface_data), w)
             else (None, w));
          (values, w) =
            (if value_name minimizator = ''LAT''
             then (let (r, w) = array_neg (lat_mean_per_segment surface_data) w
                   in (Some r, w))
             else (values, w));
          segment_ind = segment minimizator - 1
      in case values of
           None \<Rightarrow> (Inl UnboundLocalError, minimizator, w)
         | Some values \<Rightarrow>
             (case getitem (cells w values) segment_ind of
                Inl e \<Rightarrow> (Inl e, minimizator, w)
              | Inr val \<Rightarrow>
                  (case getitem (cells w densities) segment_ind of
                     Inl e \<Rightarrow> (Inl e, minimizator, w)
                   | Inr density \<Rightarrow>
                       (case unit_update minimizator density val of
                          (Inl e, st) \<Rightarrow> (Inl e, minimizator\<lparr>internal := st\<rparr>, w)
                        | (Inr density_new, st) \<Rightarrow>
                            (Inr (density, density_new),
                             minimizator\<lparr>internal := st\<rparr>,
                             print \<lparr>diag_segment = segment minimizator,
                                    diag_value_name = value_name minimizator,
                                    diag_value = val,
                                    diag_density = density,
                                    diag_density_new = density_new\<rparr> w)))))"

subsection \<open>Updating the collection\<close>

text \<open>The body of the loop of \<^verbatim>\<open>update\<close>, for one unit.\<close>

definition update_body ::
  "('a \<Rightarrow> 'a) \<Rightarrow> ('a::uminus, 's) unit_update \<Rightarrow> 's minimizator \<Rightarrow> ref \<Rightarrow> surface_data \<Rightarrow> 'a world
     \<Rightarrow> (py_error + unit) \<times> 's minimizator \<times> 'a world"
where
  "update_body astype unit_update minimizator densities surface_data w =
     (case update_minimizator unit_update minimizator densities surface_data w of
        (Inl e, m, w) \<Rightarrow> (Inl e, m, w)
      | (Inr (density, density_new), m, w) \<Rightarrow>
          (case setitem astype densities (segment minimizator - 1) density_new w of
             Inl e \<Rightarrow> (Inl e, m, w)
           | Inr w \<Rightarrow> (Inr (), m, w)))"

text \<open>
  The loop over \<^verbatim>\<open>self.minimizators\<close>. An exception ends it: the units already
  visited keep their new state, the others are untouched.
\<close>

fun update_loop ::
  "('a \<Rightarrow> 'a) \<Rightarrow> ('a::uminus, 's) unit_update \<Rightarrow> 's minimizator list \<Rightarrow> ref \<Rightarrow> surface_data \<Rightarrow> 'a world
     \<Rightarrow> (py_error + unit) \<times> 's minimizator list \<times> 'a world"
where
  "update_loop astype unit_update [] densities surface_data w = (Inr (), [], w)"
| "update_loop astype unit_update (minimizator # rest) densities surface_data w =
     (case update_body astype unit_update minimizator densities surface_data w of
        (Inl e, m, w) \<Rightarrow> (Inl e, m # rest, w)
      | (Inr u, m, w) \<Rightarrow>
          (case update_loop astype unit_update rest densities surface_data w of
             (res, ms, w) \<Rightarrow> (res, m # ms, w)))"

text \<open>
  \<^verbatim>\<open>update\<close> copies the array it is given, runs the loop on the copy and returns the
  copy's reference. \<^verbatim>\<open>copy()\<close> keeps the element type of the array copied, so the
  conversion \<open>astype\<close> applied to what the loop writes is the one of the caller's vector.
\<close>

definition update ::
  "('a \<Rightarrow> 'a) \<Rightarrow> ('a::uminus, 's) unit_update \<Rightarrow> 's minimizators_collection \<Rightarrow> ref \<Rightarrow> surface_data \<Rightarrow> 'a world
     \<Rightarrow> (py_error + ref) \<times> 's minimizators_collection \<times> 'a world"
where
  "update astype unit_update self densities surface_data w =
     (let (densities, w) = array_copy densities w
      in case update_loop astype unit_update (minimizators self) densities surface_data w of
           (Inl e, ms, w) \<Rightarrow> (Inl e, self\<lparr>minimizators := ms\<rparr>, w)
         | (Inr u, ms, w) \<Rightarrow> (Inr densities, self\<lparr>minimizators := ms\<rparr>, w))"

section \<open>A worked example\<close>

text \<open>
  The example of the specification, in tenths so that the numbers are integers: two
  segments with densities \<open>[5, 5]\<close>, peak-to-peak means \<open>[12, 0]\<close>, activation-time
  means \<open>[3, 8]\<close>. The unit of the example adds the measured value to the density and
  counts its calls in its state. \<open>ex_collection\<close> has one unit for each segment,
  \<open>ex_shared\<close> two units for segment 1, \<open>ex_far\<close> a unit for a segment the arrays do
  not have and \<open>ex_unknown\<close> a unit whose channel is neither of the two.
\<close>

definition ex_unit_update :: "(int, nat) unit_update" where
  "ex_unit_update m density val = (Inr (density + val), Suc (internal m))"

text \<open>
  The conversions of the example: a float64 vector keeps what is assigned; an integer
  vector truncates it toward zero (in tenths: to a multiple of ten).

  A float32 vector rounds what is assigned to the nearest float32 number. For numbers
  between 4 and 8 in magnitude these are the multiples of \<^verbatim>\<open>2**-21\<close>, and
  \<open>ex_float32\<close> is the conversion on that range. \<open>ex_float32_world\<close> has densities
  \<open>[5, 5]\<close>, a peak-to-peak mean of \<^verbatim>\<open>1 + 2**-25\<close> and an activation-time mean of
  \<^verbatim>\<open>0.25 + 2**-25\<close> for segment 1: float64 numbers whose sums with the densities are
  float64 numbers but not float32 numbers.
\<close>

definition ex_float32 :: "real \<Rightarrow> real" where
  "ex_float32 x = of_int (round (x * 2097152)) / 2097152"

definition ex_real_update :: "(real, nat) unit_update" where
  "ex_real_update m density val = (Inr (density + val), Suc (internal m))"

definition ex_float32_world :: "real world" where
  "ex_float32_world =
     \<lparr>cells = (\<lambda>r. [])(0 := [5, 5], 1 := [33554433 / 33554432, 0],
                         2 := [8388609 / 33554432, 3 / 4]),
      next_ref = 3, stdout = []\<rparr>"

definition ex_float64 :: "int \<Rightarrow> int" where
  "ex_float64 x = x"

definition ex_int64 :: "int \<Rightarrow> int" where
  "ex_int64 x = (if 0 \<le> x then 10 * (x div 10) else - (10 * (- x div 10)))"

definition ex_int_world :: "int world" where
  "ex_int_world = \<lparr>cells = (\<lambda>r. [])(0 := [50, 50], 1 := [12, 0], 2 := [3, 8]),
                   next_ref = 3, stdout = []\<rparr>"

definition ex_world :: "int world" where
  "ex_world = \<lparr>cells = (\<lambda>r. [])(0 := [5, 5], 1 := [12, 0], 2 := [3, 8]),
               next_ref = 3, stdout = []\<rparr>"

definition ex_surface :: surface_data where
  "ex_surface = \<lparr>ptp_mean_per_segment = 1, lat_mean_per_segment = 2\<rparr>"

definition ex_init :: "int \<Rightarrow> string \<Rightarrow> nat" where
  "ex_init seg name = 0"

definition ex_collection :: "nat minimizators_collection" where
  "ex_collection =
     MinimizatorsCollection ex_init [1, 2] [''PtP'', ''LAT''] default_density_step_tol"

definition ex_shared :: "nat minimizators_collection" where
  "ex_shared =
     MinimizatorsCollection ex_init [1, 1] [''PtP'', ''LAT''] default_density_step_tol"

definition ex_far :: "nat minimizators_collection" where
  "ex_far = MinimizatorsCollection ex_init [3] [''PtP''] default_density_step_tol"

definition ex_unknown :: "nat minimizators_collection" where
  "ex_unknown = MinimizatorsCollection ex_init [1] [''XYZ''] default_density_step_tol"

section \<open>Construction and accessors\<close>

lemma make_minimizators_loop_zip:
  "make_minimizators_loop init acc segs names =
     acc @ map (\<lambda>(seg, name). Minimizator init seg name) (zip segs names)"
  by (induction init acc segs names rule: make_minimizators_loop.induct) simp_all

text \<open>
  C7. Construction builds one unit for each pair of a segment and a channel, in the
  order of the input: the segments of the units are the first \<open>k\<close> segments given and
  their channels the first \<open>k\<close> channels given, where \<open>k\<close> is the length of the
  shorter sequence. Nothing is raised when the lengths differ: the function is total.
\<close>

theorem make_minimizators_pairs:
  "length (make_minimizators init segs names) = min (length segs) (length names)
   \<and> map segment (make_minimizators init segs names)
       = take (min (length segs) (length names)) segs
   \<and> map value_name (make_minimizators init segs names)
       = take (min (length segs) (length names)) names
   \<and> minimizators (MinimizatorsCollection init segs names tol)
       = make_minimizators init segs names"
proof -
  have fst_zip: "map fst (zip segs names) = take (min (length segs) (length names)) segs"
    by (induction segs names rule: list_induct2') simp_all
  have snd_zip: "map snd (zip segs names) = take (min (length segs) (length names)) names"
    by (induction segs names rule: list_induct2') simp_all
  have seg: "map segment (make_minimizators init segs names) = map fst (zip segs names)"
    by (simp add: make_minimizators_def make_minimizators_loop_zip Minimizator_def
        split_def comp_def)
  have nam: "map value_name (make_minimizators init segs names) = map snd (zip segs names)"
    by (simp add: make_minimizators_def make_minimizators_loop_zip Minimizator_def
        split_def comp_def)
  have len: "length (make_minimizators init segs names) = min (length segs) (length names)"
    by (simp add: make_minimizators_def make_minimizators_loop_zip)
  show ?thesis
    using fst_zip snd_zip seg nam len by (simp add: MinimizatorsCollection_def)
qed

text \<open>
  C9. The two accessors are computed from the units the collection holds when they are
  called: \<open>segments\<close> is the list of the units' segments and \<open>value_names\<close> the list
  of their channels, in the units' order. Nothing is stored beside the units, so after
  the units are replaced, or one is appended, the accessors give the new units' values.
  For a collection just constructed they give the paired prefixes of the inputs.
\<close>

theorem accessors_follow_units:
  "segments c = map segment (minimizators c)
   \<and> value_names c = map value_name (minimizators c)
   \<and> segments (c\<lparr>minimizators := ms\<rparr>) = map segment ms
   \<and> value_names (c\<lparr>minimizators := ms\<rparr>) = map value_name ms
   \<and> segments (c\<lparr>minimizators := minimizators c @ [m]\<rparr>) = segments c @ [segment m]
   \<and> value_names (c\<lparr>minimizators := minimizators c @ [m]\<rparr>) = value_names c @ [value_name m]
   \<and> segments (MinimizatorsCollection init segs names tol)
       = take (min (length segs) (length names)) segs
   \<and> value_names (MinimizatorsCollection init segs names tol)
       = take (min (length segs) (length names)) names"
proof -
  have z: "map segment (make_minimizators init segs names)
             = take (min (length segs) (length names)) segs"
    "map value_name (make_minimizators init segs names)
             = take (min (length segs) (length names)) names"
    by (induction segs names rule: list_induct2')
      (simp_all add: make_minimizators_def make_minimizators_loop_zip Minimizator_def)
  show ?thesis
    by (simp add: segments_def value_names_def MinimizatorsCollection_def z)
qed

section \<open>One unit, one turn of the loop, the whole loop\<close>

lemma py_index_segment:
  "1 \<le> s \<Longrightarrow> py_index n (s - 1) = (if s \<le> int n then Inr (nat (s - 1)) else Inl IndexError)"
  by (simp add: py_index_def)

lemma getitem_map:
  "getitem (map f xs) i = (case getitem xs i of Inl e \<Rightarrow> Inl e | Inr x \<Rightarrow> Inr (f x))"
  by (auto simp: getitem_def py_index_def)

lemma array_neg_simps:
  "fst (array_neg r w) = next_ref w"
  "cells (snd (array_neg r w)) = (cells w)(next_ref w := map uminus (cells w r))"
  "next_ref (snd (array_neg r w)) = Suc (next_ref w)"
  "stdout (snd (array_neg r w)) = stdout w"
  by (simp_all add: array_neg_def alloc_def)

text \<open>What a unit's update is given, and what it leaves behind, when it returns.\<close>

lemma update_minimizator_Inr:
  assumes "update_minimizator upd m d S w = (Inr (den, dn), m', w')"
  obtains v w0 where
    "value_name m = ''PtP'' \<and> w0 = w
       \<and> getitem (cells w (ptp_mean_per_segment S)) (segment m - 1) = Inr v
     \<or> value_name m = ''LAT'' \<and> w0 = snd (array_neg (lat_mean_per_segment S) w)
       \<and> getitem (map uminus (cells w (lat_mean_per_segment S))) (segment m - 1) = Inr v"
    "getitem (cells w0 d) (segment m - 1) = Inr den"
    "upd m den v = (Inr dn, internal m')"
    "m' = m\<lparr>internal := internal m'\<rparr>"
    "w' = print \<lparr>diag_segment = segment m, diag_value_name = value_name m,
                 diag_value = v, diag_density = den, diag_density_new = dn\<rparr> w0"
  using assms
  by (auto simp: update_minimizator_def array_neg_def alloc_def Let_def
      split: if_splits sum.splits prod.splits option.splits)

lemma update_minimizator_frame:
  assumes "update_minimizator upd m d S w = (res, m', w')"
  shows "next_ref w \<le> next_ref w'"
    and "r < next_ref w \<Longrightarrow> cells w' r = cells w r"
    and "segment m' = segment m" and "value_name m' = value_name m"
  using assms
  by (auto simp: update_minimizator_def array_neg_def alloc_def Let_def print_def
      split: if_splits sum.splits prod.splits option.splits)


lemma update_body_Inr:
  assumes "update_body astype upd m d S w = (Inr (), m', w')"
  obtains den dn w1 k where
    "update_minimizator upd m d S w = (Inr (den, dn), m', w1)"
    "py_index (length (cells w1 d)) (segment m - 1) = Inr k"
    "w' = w1\<lparr>cells := (cells w1)(d := (cells w1 d)[k := astype dn])\<rparr>"
  using assms
  by (auto simp: update_body_def setitem_def split: sum.splits prod.splits)

lemma update_body_frame:
  assumes "update_body astype upd m d S w = (res, m', w')"
  shows "next_ref w \<le> next_ref w'"
    and "r < next_ref w \<Longrightarrow> r \<noteq> d \<Longrightarrow> cells w' r = cells w r"
    and "d < next_ref w \<Longrightarrow> length (cells w' d) = length (cells w d)"
    and "segment m' = segment m" and "value_name m' = value_name m"
proof -
  obtain r1 m1 w1 where um: "update_minimizator upd m d S w = (r1, m1, w1)"
    by (cases "update_minimizator upd m d S w") auto
  note fr = update_minimizator_frame [OF um]
  have w': "w' = w1 \<or> (\<exists>k v. w' = w1\<lparr>cells := (cells w1)(d := (cells w1 d)[k := v])\<rparr>)"
    and m': "m' = m1"
    using assms um by (auto simp: update_body_def setitem_def split: sum.splits prod.splits)
  show "next_ref w \<le> next_ref w'" using w' fr(1) by auto
  show "r < next_ref w \<Longrightarrow> r \<noteq> d \<Longrightarrow> cells w' r = cells w r" using w' fr(2) by auto
  show "d < next_ref w \<Longrightarrow> length (cells w' d) = length (cells w d)"
    using w' fr(2) [of d] by auto
  show "segment m' = segment m" "value_name m' = value_name m" using m' fr(3,4) by auto
qed

lemma update_loop_frame:
  assumes "update_loop astype upd ms d S w = (res, ms', w')"
  shows "next_ref w \<le> next_ref w'
     \<and> (\<forall>r. r < next_ref w \<longrightarrow> r \<noteq> d \<longrightarrow> cells w' r = cells w r)
     \<and> (d < next_ref w \<longrightarrow> length (cells w' d) = length (cells w d))
     \<and> map segment ms' = map segment ms \<and> map value_name ms' = map value_name ms"
  using assms
proof (induction ms arbitrary: w res ms' w')
  case Nil
  then show ?case by simp
next
  case (Cons m ms)
  obtain r1 m1 w1 where b: "update_body astype upd m d S w = (r1, m1, w1)"
    by (cases "update_body astype upd m d S w") auto
  note fr = update_body_frame [OF b]
  show ?case
  proof (cases r1)
    case (Inl e)
    with Cons.prems b fr show ?thesis by auto
  next
    case (Inr u)
    obtain r2 ms2 w2 where l: "update_loop astype upd ms d S w1 = (r2, ms2, w2)"
      by (cases "update_loop astype upd ms d S w1") auto
    from Cons.IH [OF l] have ih:
      "next_ref w1 \<le> next_ref w2"
      "\<And>r. r < next_ref w1 \<Longrightarrow> r \<noteq> d \<Longrightarrow> cells w2 r = cells w1 r"
      "d < next_ref w1 \<Longrightarrow> length (cells w2 d) = length (cells w1 d)"
      "map segment ms2 = map segment ms" "map value_name ms2 = map value_name ms"
      by auto
    from Cons.prems b Inr l have eq: "w' = w2" "ms' = m1 # ms2" by auto
    show ?thesis
      unfolding eq using fr ih by (auto simp: less_le_trans)
  qed
qed


lemma update_body_step:
  assumes "update_body astype upd m d S w = (Inr (), m', w')" and "d < next_ref w"
  obtains v k dn where
    "value_name m = ''PtP''
       \<and> getitem (cells w (ptp_mean_per_segment S)) (segment m - 1) = Inr v
     \<or> value_name m = ''LAT''
       \<and> (\<exists>x. getitem (cells w (lat_mean_per_segment S)) (segment m - 1) = Inr x \<and> v = - x)"
    "py_index (length (cells w d)) (segment m - 1) = Inr k"
    "upd m (cells w d ! k) v = (Inr dn, internal m')"
    "cells w' d = (cells w d)[k := astype dn]"
    "stdout w' = stdout w @ [\<lparr>diag_segment = segment m, diag_value_name = value_name m,
        diag_value = v, diag_density = cells w d ! k, diag_density_new = dn\<rparr>]"
proof -
  from assms(1) obtain den dn w1 k where
    um: "update_minimizator upd m d S w = (Inr (den, dn), m', w1)"
    and k: "py_index (length (cells w1 d)) (segment m - 1) = Inr k"
    and w': "w' = w1\<lparr>cells := (cells w1)(d := (cells w1 d)[k := astype dn])\<rparr>"
    by (rule update_body_Inr)
  from update_minimizator_frame(2) [OF um assms(2)] have d: "cells w1 d = cells w d" .
  from um obtain v w0 where
    ch: "value_name m = ''PtP'' \<and> w0 = w
       \<and> getitem (cells w (ptp_mean_per_segment S)) (segment m - 1) = Inr v
     \<or> value_name m = ''LAT'' \<and> w0 = snd (array_neg (lat_mean_per_segment S) w)
       \<and> getitem (map uminus (cells w (lat_mean_per_segment S))) (segment m - 1) = Inr v"
    and den: "getitem (cells w0 d) (segment m - 1) = Inr den"
    and upd: "upd m den v = (Inr dn, internal m')"
    and w1: "w1 = print \<lparr>diag_segment = segment m, diag_value_name = value_name m,
                 diag_value = v, diag_density = den, diag_density_new = dn\<rparr> w0"
    by (rule update_minimizator_Inr)
  from ch assms(2) have w0: "cells w0 d = cells w d" "stdout w0 = stdout w"
    by (auto simp: array_neg_simps)
  from den k have den': "den = cells w d ! k"
    by (simp add: getitem_def w0 d)
  have 1: "value_name m = ''PtP''
       \<and> getitem (cells w (ptp_mean_per_segment S)) (segment m - 1) = Inr v
     \<or> value_name m = ''LAT''
       \<and> (\<exists>x. getitem (cells w (lat_mean_per_segment S)) (segment m - 1) = Inr x \<and> v = - x)"
    using ch by (auto simp: getitem_map split: sum.splits)
  show thesis
  proof (rule that [OF 1])
    show "py_index (length (cells w d)) (segment m - 1) = Inr k" using k d by simp
    show "upd m (cells w d ! k) v = (Inr dn, internal m')" using upd den' by simp
    show "cells w' d = (cells w d)[k := astype dn]" using w' d by simp
    show "stdout w' = stdout w @ [\<lparr>diag_segment = segment m, diag_value_name = value_name m,
        diag_value = v, diag_density = cells w d ! k, diag_density_new = dn\<rparr>]"
      using w' w1 w0 den' by (simp add: print_def)
  qed
qed

lemma update_body_stdout:
  assumes "update_body astype upd m d S w = (res, m', w')"
  shows "take (length (stdout w)) (stdout w') = stdout w"
    and "res = Inr u \<Longrightarrow> length (stdout w') = Suc (length (stdout w))"
  using assms
  by (auto simp: update_body_def setitem_def update_minimizator_def array_neg_def alloc_def
      Let_def print_def split: if_splits sum.splits prod.splits option.splits)

lemma update_loop_stdout:
  assumes "update_loop astype upd ms d S w = (res, ms', w')"
  shows "take (length (stdout w)) (stdout w') = stdout w
     \<and> (\<forall>u. res = Inr u \<longrightarrow> length (stdout w') = length (stdout w) + length ms)"
  using assms
proof (induction ms arbitrary: w res ms' w')
  case Nil
  then show ?case by simp
next
  case (Cons m ms)
  obtain r1 m1 w1 where b: "update_body astype upd m d S w = (r1, m1, w1)"
    by (cases "update_body astype upd m d S w") auto
  note st = update_body_stdout [OF b]
  show ?case
  proof (cases r1)
    case (Inl e)
    with Cons.prems b st(1) show ?thesis by auto
  next
    case (Inr u)
    obtain r2 ms2 w2 where l: "update_loop astype upd ms d S w1 = (r2, ms2, w2)"
      by (cases "update_loop astype upd ms d S w1") auto
    from Cons.IH [OF l] have ih: "take (length (stdout w1)) (stdout w2) = stdout w1"
      "\<And>u. r2 = Inr u \<Longrightarrow> length (stdout w2) = length (stdout w1) + length ms"
      by auto
    from Cons.prems b Inr l have eq: "w' = w2" "res = r2" by auto
    from st(2) [OF Inr] have len: "length (stdout w1) = Suc (length (stdout w))" .
    have "take (length (stdout w)) (stdout w2)
        = take (length (stdout w)) (take (length (stdout w1)) (stdout w2))"
      by (simp add: len min_def)
    also have "\<dots> = stdout w" using ih(1) st(1) by simp
    finally show ?thesis unfolding eq using ih(2) len by auto
  qed
qed

lemma update_loop_nth:
  assumes "update_loop astype upd ms d S w = (Inr (), ms', w')" and "k < length ms"
  obtains w1 w2 pre m' post where
    "update_loop astype upd (take k ms) d S w = (Inr (), pre, w1)"
    "update_body astype upd (ms ! k) d S w1 = (Inr (), m', w2)"
    "update_loop astype upd (drop (Suc k) ms) d S w2 = (Inr (), post, w')"
proof -
  have "\<exists>w1 w2 pre m' post.
      update_loop astype upd (take k ms) d S w = (Inr (), pre, w1)
    \<and> update_body astype upd (ms ! k) d S w1 = (Inr (), m', w2)
    \<and> update_loop astype upd (drop (Suc k) ms) d S w2 = (Inr (), post, w')"
    using assms
  proof (induction ms arbitrary: k w ms')
    case Nil
    then show ?case by simp
  next
    case (Cons m ms)
    from Cons.prems(1) obtain m1 w1 ms2 where
      b: "update_body astype upd m d S w = (Inr (), m1, w1)"
      and l: "update_loop astype upd ms d S w1 = (Inr (), ms2, w')"
      by (auto split: sum.splits prod.splits)
    show ?case
    proof (cases k)
      case 0
      with b l show ?thesis by auto
    next
      case (Suc j)
      with Cons.prems(2) have "j < length ms" by simp
      from Cons.IH [OF l this] obtain wa wb pre m' post where
        "update_loop astype upd (take j ms) d S w1 = (Inr (), pre, wa)"
        "update_body astype upd (ms ! j) d S wa = (Inr (), m', wb)"
        "update_loop astype upd (drop (Suc j) ms) d S wb = (Inr (), post, w')"
        by blast
      with b Suc show ?thesis by auto
    qed
  qed
  then show thesis using that by blast
qed


lemma update_loop_pass:
  assumes "update_loop astype upd ms d S w = (Inr (), ms', w')" and "d < next_ref w"
    and "\<forall>m\<in>set ms. 1 \<le> segment m" and "int j + 1 \<notin> segment ` set ms"
  shows "cells w' d ! j = cells w d ! j"
  using assms
proof (induction ms arbitrary: w ms')
  case Nil
  then show ?case by simp
next
  case (Cons m ms)
  from Cons.prems(1) obtain m1 w1 ms2 where
    b: "update_body astype upd m d S w = (Inr (), m1, w1)"
    and l: "update_loop astype upd ms d S w1 = (Inr (), ms2, w')"
    by (auto split: sum.splits prod.splits)
  from update_body_frame(1) [OF b] Cons.prems(2) have d1: "d < next_ref w1" by simp
  from b Cons.prems(2) obtain v k dn where
    k: "py_index (length (cells w d)) (segment m - 1) = Inr k"
    and c: "cells w1 d = (cells w d)[k := astype dn]"
    by (rule update_body_step)
  from Cons.prems(3) have "1 \<le> segment m" by simp
  with k have "k = nat (segment m - 1)"
    by (simp add: py_index_segment split: if_splits)
  moreover from Cons.prems(4) have "segment m \<noteq> int j + 1" by auto
  ultimately have "k \<noteq> j" using \<open>1 \<le> segment m\<close> by auto
  with c have "cells w1 d ! j = cells w d ! j" by simp
  moreover have "cells w' d ! j = cells w1 d ! j"
    using Cons.IH [OF l d1] Cons.prems(3,4) by auto
  ultimately show ?case by simp
qed

lemma array_copy_simps:
  "fst (array_copy r w) = next_ref w"
  "cells (snd (array_copy r w)) = (cells w)(next_ref w := cells w r)"
  "next_ref (snd (array_copy r w)) = Suc (next_ref w)"
  "stdout (snd (array_copy r w)) = stdout w"
  by (simp_all add: array_copy_def alloc_def)

lemma update_Inr:
  assumes "update astype upd c D S w = (Inr r, c', w')"
  shows "r = next_ref w"
    and "update_loop astype upd (minimizators c) r S (snd (array_copy D w))
          = (Inr (), minimizators c', w')"
  using assms
  by (auto simp: update_def array_copy_def alloc_def split: sum.splits prod.splits)

lemma update_loop_entry:
  assumes "update_loop astype upd ms d S w = (Inr (), ms', w')" and "d < next_ref w"
    and "k < length ms"
  shows "\<exists>w1 w2 pre m' post v i dn.
      update_loop astype upd (take k ms) d S w = (Inr (), pre, w1)
    \<and> update_body astype upd (ms ! k) d S w1 = (Inr (), m', w2)
    \<and> update_loop astype upd (drop (Suc k) ms) d S w2 = (Inr (), post, w')
    \<and> d < next_ref w1 \<and> d < next_ref w2
    \<and> (\<forall>r. r < next_ref w \<longrightarrow> r \<noteq> d \<longrightarrow> cells w1 r = cells w r)
    \<and> (value_name (ms ! k) = ''PtP''
         \<and> getitem (cells w1 (ptp_mean_per_segment S)) (segment (ms ! k) - 1) = Inr v
       \<or> value_name (ms ! k) = ''LAT''
         \<and> (\<exists>x. getitem (cells w1 (lat_mean_per_segment S)) (segment (ms ! k) - 1) = Inr x
                \<and> v = - x))
    \<and> py_index (length (cells w1 d)) (segment (ms ! k) - 1) = Inr i
    \<and> fst (upd (ms ! k) (cells w1 d ! i) v) = Inr dn
    \<and> cells w2 d = (cells w1 d)[i := astype dn]
    \<and> stdout w' ! (length (stdout w) + k)
       = \<lparr>diag_segment = segment (ms ! k), diag_value_name = value_name (ms ! k),
          diag_value = v, diag_density = cells w1 d ! i, diag_density_new = dn\<rparr>"
proof -
  from assms(1,3) obtain w1 w2 pre m' post where
    pre: "update_loop astype upd (take k ms) d S w = (Inr (), pre, w1)"
    and body: "update_body astype upd (ms ! k) d S w1 = (Inr (), m', w2)"
    and post: "update_loop astype upd (drop (Suc k) ms) d S w2 = (Inr (), post, w')"
    by (rule update_loop_nth)
  from update_loop_frame [OF pre] have
    n1: "next_ref w \<le> next_ref w1"
    and c1: "\<And>r. r < next_ref w \<Longrightarrow> r \<noteq> d \<Longrightarrow> cells w1 r = cells w r"
    by auto
  from n1 assms(2) have d1: "d < next_ref w1" by simp
  from update_body_frame(1) [OF body] d1 have d2: "d < next_ref w2" by simp
  from update_loop_stdout [OF pre] assms(3) have
    len1: "length (stdout w1) = length (stdout w) + k" by (simp add: min_def)
  from update_loop_stdout [OF post] have
    pref: "take (length (stdout w2)) (stdout w') = stdout w2" by simp
  from body d1 obtain v i dn where
    ch: "value_name (ms ! k) = ''PtP''
       \<and> getitem (cells w1 (ptp_mean_per_segment S)) (segment (ms ! k) - 1) = Inr v
     \<or> value_name (ms ! k) = ''LAT''
       \<and> (\<exists>x. getitem (cells w1 (lat_mean_per_segment S)) (segment (ms ! k) - 1) = Inr x
              \<and> v = - x)"
    and i: "py_index (length (cells w1 d)) (segment (ms ! k) - 1) = Inr i"
    and u: "upd (ms ! k) (cells w1 d ! i) v = (Inr dn, internal m')"
    and c2: "cells w2 d = (cells w1 d)[i := astype dn]"
    and out: "stdout w2 = stdout w1 @ [\<lparr>diag_segment = segment (ms ! k),
        diag_value_name = value_name (ms ! k),
        diag_value = v, diag_density = cells w1 d ! i, diag_density_new = dn\<rparr>]"
    by (rule update_body_step)
  have "stdout w' ! (length (stdout w) + k) = stdout w2 ! (length (stdout w) + k)"
  proof -
    have "length (stdout w) + k < length (stdout w2)" using out len1 by simp
    then have "take (length (stdout w2)) (stdout w') ! (length (stdout w) + k)
        = stdout w' ! (length (stdout w) + k)" by simp
    with pref show ?thesis by simp
  qed
  also have "\<dots> = \<lparr>diag_segment = segment (ms ! k),
        diag_value_name = value_name (ms ! k),
        diag_value = v, diag_density = cells w1 d ! i, diag_density_new = dn\<rparr>"
    using out len1 by (simp add: nth_append)
  finally have e: "stdout w' ! (length (stdout w) + k) = \<lparr>diag_segment = segment (ms ! k),
        diag_value_name = value_name (ms ! k),
        diag_value = v, diag_density = cells w1 d ! i, diag_density_new = dn\<rparr>" .
  from u have u': "fst (upd (ms ! k) (cells w1 d ! i) v) = Inr dn" by simp
  from pre body post d1 d2 c1 ch i u' c2 e show ?thesis by blast
qed

section \<open>Running the example\<close>

lemmas ex_defs = ex_float64_def ex_int64_def ex_int_world_def ex_float32_def
  ex_real_update_def ex_float32_world_def ex_unit_update_def ex_world_def ex_surface_def ex_init_def ex_collection_def
  ex_shared_def ex_far_def ex_unknown_def MinimizatorsCollection_def make_minimizators_def
  Minimizator_def

lemmas run_defs = update_def array_copy_def alloc_def update_body_def update_minimizator_def
  array_neg_def getitem_def py_index_def setitem_def print_def Let_def

lemma ex_collection_run:
  "update ex_float64 ex_unit_update ex_collection 0 ex_surface ex_world =
    (Inr 3,
     ex_collection\<lparr>minimizators :=
       [\<lparr>segment = 1, value_name = ''PtP'', internal = 1\<rparr>,
        \<lparr>segment = 2, value_name = ''LAT'', internal = 1\<rparr>]\<rparr>,
     \<lparr>cells = (\<lambda>r. [])(0 := [5, 5], 1 := [12, 0], 2 := [3, 8], 3 := [17, - 3], 4 := [- 3, - 8]),
      next_ref = 5,
      stdout = [\<lparr>diag_segment = 1, diag_value_name = ''PtP'', diag_value = 12,
                 diag_density = 5, diag_density_new = 17\<rparr>,
                \<lparr>diag_segment = 2, diag_value_name = ''LAT'', diag_value = - 8,
                 diag_density = 5, diag_density_new = - 3\<rparr>]\<rparr>)"
  by (simp add: ex_defs run_defs fun_upd_twist)

lemma ex_shared_run:
  "update ex_float64 ex_unit_update ex_shared 0 ex_surface ex_world =
    (Inr 3,
     ex_shared\<lparr>minimizators :=
       [\<lparr>segment = 1, value_name = ''PtP'', internal = 1\<rparr>,
        \<lparr>segment = 1, value_name = ''LAT'', internal = 1\<rparr>]\<rparr>,
     \<lparr>cells = (\<lambda>r. [])(0 := [5, 5], 1 := [12, 0], 2 := [3, 8], 3 := [14, 5], 4 := [- 3, - 8]),
      next_ref = 5,
      stdout = [\<lparr>diag_segment = 1, diag_value_name = ''PtP'', diag_value = 12,
                 diag_density = 5, diag_density_new = 17\<rparr>,
                \<lparr>diag_segment = 1, diag_value_name = ''LAT'', diag_value = - 3,
                 diag_density = 17, diag_density_new = 14\<rparr>]\<rparr>)"
  by (simp add: ex_defs run_defs fun_upd_twist)

section \<open>The density vector\<close>

text \<open>
  C2. Whatever \<^verbatim>\<open>update\<close> does, and whether it returns or raises, the array the
  caller passed is afterwards what it was, element for element, and so is every array
  that existed before the call. The vector returned is a new array: its reference was
  not allocated before the call, and it is the only array the loop writes into.
\<close>

lemma ex_int_run:
  "update ex_int64 ex_unit_update ex_shared 0 ex_surface ex_int_world =
    (Inr 3,
     ex_shared\<lparr>minimizators :=
       [\<lparr>segment = 1, value_name = ''PtP'', internal = 1\<rparr>,
        \<lparr>segment = 1, value_name = ''LAT'', internal = 1\<rparr>]\<rparr>,
     \<lparr>cells = (\<lambda>r. [])(0 := [50, 50], 1 := [12, 0], 2 := [3, 8], 3 := [50, 50],
        4 := [- 3, - 8]),
      next_ref = 5,
      stdout = [\<lparr>diag_segment = 1, diag_value_name = ''PtP'', diag_value = 12,
                 diag_density = 50, diag_density_new = 62\<rparr>,
                \<lparr>diag_segment = 1, diag_value_name = ''LAT'', diag_value = - 3,
                 diag_density = 60, diag_density_new = 57\<rparr>]\<rparr>)"
  by (simp add: ex_defs run_defs fun_upd_twist)

lemma ex_float32_run:
  "update ex_float32 ex_real_update ex_shared 0 ex_surface ex_float32_world =
    (Inr 3,
     ex_shared\<lparr>minimizators :=
       [\<lparr>segment = 1, value_name = ''PtP'', internal = 1\<rparr>,
        \<lparr>segment = 1, value_name = ''LAT'', internal = 1\<rparr>]\<rparr>,
     \<lparr>cells = (\<lambda>r. [])(0 := [5, 5], 1 := [33554433 / 33554432, 0],
        2 := [8388609 / 33554432, 3 / 4], 3 := [23 / 4, 5],
        4 := [- (8388609 / 33554432), - (3 / 4)]),
      next_ref = 5,
      stdout = [\<lparr>diag_segment = 1, diag_value_name = ''PtP'',
                 diag_value = 33554433 / 33554432,
                 diag_density = 5, diag_density_new = 201326593 / 33554432\<rparr>,
                \<lparr>diag_segment = 1, diag_value_name = ''LAT'',
                 diag_value = - (8388609 / 33554432),
                 diag_density = 6, diag_density_new = 192937983 / 33554432\<rparr>]\<rparr>)"
  by (simp add: ex_defs run_defs fun_upd_twist round_def)

theorem update_leaves_input_unchanged:
  assumes "update astype upd c D S w = (res, c', w')" and "D < next_ref w"
  shows "cells w' D = cells w D
     \<and> (\<forall>r. r < next_ref w \<longrightarrow> cells w' r = cells w r)
     \<and> (\<forall>r. res = Inr r \<longrightarrow> r = next_ref w \<and> r < next_ref w')"
proof -
  obtain res1 ms1 where
    l: "update_loop astype upd (minimizators c) (next_ref w) S (snd (array_copy D w)) = (res1, ms1, w')"
    and res: "\<And>r. res = Inr r \<Longrightarrow> r = next_ref w"
    using assms(1)
    by (auto simp: update_def array_copy_def alloc_def split: sum.splits prod.splits)
  from update_loop_frame [OF l] have
    n: "Suc (next_ref w) \<le> next_ref w'"
    and f: "\<And>r. r < next_ref w \<Longrightarrow> cells w' r = cells w r"
    by (auto simp: array_copy_simps)
  from f [OF assms(2)] f n res show ?thesis by auto
qed

theorem update_leaves_input_unchanged_witness:
  "0 < next_ref ex_world
   \<and> cells (snd (snd (update ex_float64 ex_unit_update ex_collection 0 ex_surface ex_world))) 0
       = cells ex_world 0
   \<and> fst (update ex_float64 ex_unit_update ex_collection 0 ex_surface ex_world) = Inr (next_ref ex_world)
   \<and> cells (snd (snd (update ex_float64 ex_unit_update ex_collection 0 ex_surface ex_world))) 3
       \<noteq> cells ex_world 0"
proof -
  have D: "0 < next_ref ex_world" by (simp add: ex_world_def)
  show ?thesis
    using update_leaves_input_unchanged [OF ex_collection_run D] D
    by (simp add: ex_collection_run) (simp add: ex_world_def)
qed

text \<open>
  C3. When \<^verbatim>\<open>update\<close> returns, the vector returned has the length of the input, and
  at the position of every segment \<open>s\<close> that no unit owns it holds the input's value.
  Segments are positive, as the data model has them (a unit of segment 0 or below would
  write at a position counted from the end, which is another segment's).
\<close>

theorem update_passes_unmanaged_through:
  assumes "update astype upd c D S w = (Inr r, c', w')"
    and "\<forall>m\<in>set (minimizators c). 1 \<le> segment m"
    and "1 \<le> s" and "s \<le> int (length (cells w D))"
    and "s \<notin> set (segments c)"
  shows "length (cells w' r) = length (cells w D)
     \<and> cells w' r ! nat (s - 1) = cells w D ! nat (s - 1)"
proof -
  let ?w0 = "snd (array_copy D w)"
  note r = update_Inr(1) [OF assms(1)] and l = update_Inr(2) [OF assms(1)]
  have d: "r < next_ref ?w0" and c0: "cells ?w0 r = cells w D"
    by (simp_all add: array_copy_simps r)
  from update_loop_frame [OF l] d c0 have "length (cells w' r) = length (cells w D)"
    by simp
  moreover have "int (nat (s - 1)) + 1 \<notin> segment ` set (minimizators c)"
    using assms(3,5) by (simp add: segments_def)
  from update_loop_pass [OF l d assms(2) this] c0
  have "cells w' r ! nat (s - 1) = cells w D ! nat (s - 1)" by simp
  ultimately show ?thesis by simp
qed

theorem update_passes_unmanaged_through_witness:
  "segments ex_shared = [1, 1]
   \<and> (2::int) \<le> int (length (cells ex_world 0))
   \<and> 2 \<notin> set (segments ex_shared)
   \<and> length (cells (snd (snd (update ex_float64 ex_unit_update ex_shared 0 ex_surface ex_world))) 3) = 2
   \<and> cells (snd (snd (update ex_float64 ex_unit_update ex_shared 0 ex_surface ex_world))) 3 ! 1
       = cells ex_world 0 ! 1
   \<and> cells (snd (snd (update ex_float64 ex_unit_update ex_shared 0 ex_surface ex_world))) 3 ! 0
       \<noteq> cells ex_world 0 ! 0"
proof -
  have 1: "\<forall>m\<in>set (minimizators ex_shared). 1 \<le> segment m"
    by (simp add: ex_defs)
  have 2: "(1::int) \<le> 2" by simp
  have 3: "(2::int) \<le> int (length (cells ex_world 0))" by (simp add: ex_world_def)
  have 4: "2 \<notin> set (segments ex_shared)" by (simp add: segments_def ex_defs)
  show ?thesis
    using update_passes_unmanaged_through [OF ex_shared_run 1 2 3 4] 3 4
    by (simp add: ex_shared_run) (simp add: ex_world_def segments_def ex_defs)
qed

section \<open>What each unit is given\<close>

text \<open>
  C1. When \<^verbatim>\<open>update\<close> returns, the measured value passed to the update of each unit
  (the \<open>k\<close>-th unit, whose lines are the \<open>k\<close>-th printed by the call) is selected by
  its channel: for \<open>LAT\<close> it is the negation of the snapshot's activation-time mean
  at index \<open>segment - 1\<close>, for \<open>PtP\<close> the snapshot's peak-to-peak mean at that index,
  as it is. The value printed is the very one passed: the new density printed is what
  the unit's update gives for the density and the value printed.
\<close>

theorem update_measured_value:
  assumes "update astype upd c D S w = (Inr r, c', w')"
    and "ptp_mean_per_segment S < next_ref w" and "lat_mean_per_segment S < next_ref w"
    and "k < length (minimizators c)"
  shows "diag_segment (stdout w' ! (length (stdout w) + k)) = segment (minimizators c ! k)
     \<and> diag_value_name (stdout w' ! (length (stdout w) + k)) = value_name (minimizators c ! k)
     \<and> fst (upd (minimizators c ! k)
            (diag_density (stdout w' ! (length (stdout w) + k)))
            (diag_value (stdout w' ! (length (stdout w) + k))))
         = Inr (diag_density_new (stdout w' ! (length (stdout w) + k)))
     \<and> (value_name (minimizators c ! k) = ''LAT'' \<longrightarrow>
          (\<exists>x. getitem (cells w (lat_mean_per_segment S)) (segment (minimizators c ! k) - 1) = Inr x
             \<and> diag_value (stdout w' ! (length (stdout w) + k)) = - x))
     \<and> (value_name (minimizators c ! k) = ''PtP'' \<longrightarrow>
          getitem (cells w (ptp_mean_per_segment S)) (segment (minimizators c ! k) - 1)
            = Inr (diag_value (stdout w' ! (length (stdout w) + k))))"
proof -
  let ?w0 = "snd (array_copy D w)" and ?ms = "minimizators c"
  note r = update_Inr(1) [OF assms(1)] and l = update_Inr(2) [OF assms(1)]
  have d: "r < next_ref ?w0" by (simp add: array_copy_simps r)
  from update_loop_entry [OF l d assms(4)] obtain pre w1 v i dn where
    "update_loop astype upd (take k ?ms) r S ?w0 = (Inr (), pre, w1)"
    and fr: "\<forall>q. q < next_ref ?w0 \<longrightarrow> q \<noteq> r \<longrightarrow> cells w1 q = cells ?w0 q"
    and ch: "value_name (?ms ! k) = ''PtP''
       \<and> getitem (cells w1 (ptp_mean_per_segment S)) (segment (?ms ! k) - 1) = Inr v
     \<or> value_name (?ms ! k) = ''LAT''
       \<and> (\<exists>x. getitem (cells w1 (lat_mean_per_segment S)) (segment (?ms ! k) - 1) = Inr x
              \<and> v = - x)"
    and u: "fst (upd (?ms ! k) (cells w1 r ! i) v) = Inr dn"
    and e: "stdout w' ! (length (stdout ?w0) + k)
       = \<lparr>diag_segment = segment (?ms ! k), diag_value_name = value_name (?ms ! k),
          diag_value = v, diag_density = cells w1 r ! i, diag_density_new = dn\<rparr>"
    by blast
  have p: "cells w1 (ptp_mean_per_segment S) = cells w (ptp_mean_per_segment S)"
    using fr assms(2) by (simp add: array_copy_simps r)
  have q: "cells w1 (lat_mean_per_segment S) = cells w (lat_mean_per_segment S)"
    using fr assms(3) by (simp add: array_copy_simps r)
  from e have e': "stdout w' ! (length (stdout w) + k)
       = \<lparr>diag_segment = segment (?ms ! k), diag_value_name = value_name (?ms ! k),
          diag_value = v, diag_density = cells w1 r ! i, diag_density_new = dn\<rparr>"
    by (simp add: array_copy_simps)
  show ?thesis
    unfolding e' using ch u by (auto simp: p q)
qed

theorem update_measured_value_witness:
  "value_name (minimizators ex_collection ! 1) = ''LAT''
   \<and> getitem (cells ex_world (lat_mean_per_segment ex_surface)) 1 = Inr 8
   \<and> diag_value (stdout (snd (snd (update ex_float64 ex_unit_update ex_collection 0 ex_surface ex_world))) ! 1)
       = - 8
   \<and> value_name (minimizators ex_collection ! 0) = ''PtP''
   \<and> getitem (cells ex_world (ptp_mean_per_segment ex_surface)) 0 = Inr 12
   \<and> diag_value (stdout (snd (snd (update ex_float64 ex_unit_update ex_collection 0 ex_surface ex_world))) ! 0)
       = 12"
proof -
  have p: "ptp_mean_per_segment ex_surface < next_ref ex_world"
    and l: "lat_mean_per_segment ex_surface < next_ref ex_world"
    by (simp_all add: ex_defs)
  have k0: "0 < length (minimizators ex_collection)"
    and k1: "1 < length (minimizators ex_collection)"
    by (simp_all add: ex_defs)
  show ?thesis
    using update_measured_value [OF ex_collection_run p l k1]
      update_measured_value [OF ex_collection_run p l k0]
    by (simp add: ex_collection_run) (simp add: ex_defs getitem_def py_index_def)
qed


section \<open>Units that share a segment\<close>

lemma nth_drop_segments:
  assumes "\<forall>i. k < i \<and> i < length ms \<longrightarrow> segment (ms ! i) \<noteq> s"
  shows "s \<notin> segment ` set (drop (Suc k) ms)"
proof
  assume "s \<in> segment ` set (drop (Suc k) ms)"
  then obtain j where "j < length (drop (Suc k) ms)" "segment (drop (Suc k) ms ! j) = s"
    by (auto simp: in_set_conv_nth)
  then have "Suc k + j < length ms" "segment (ms ! (Suc k + j)) = s" by auto
  with assms show False by (metis less_add_Suc1 add_Suc)
qed

text \<open>
  C4, amended. When several units have the same segment, the vector returned holds, at
  that segment's position, the new density produced by the last of them in construction
  order, converted to the element type of the density vector as numpy converts what is
  assigned: if no unit after the \<open>k\<close>-th has the \<open>k\<close>-th unit's segment, the output at
  that position is \<open>astype\<close> of the new density of the \<open>k\<close>-th unit's update. It is
  that new density itself when the conversion leaves it unchanged. Segments are
  positive.
\<close>

theorem update_last_unit_wins:
  assumes "update astype upd c D S w = (Inr r, c', w')"
    and "\<forall>m\<in>set (minimizators c). 1 \<le> segment m"
    and "k < length (minimizators c)"
    and "\<forall>i. k < i \<and> i < length (minimizators c)
           \<longrightarrow> segment (minimizators c ! i) \<noteq> segment (minimizators c ! k)"
  shows "cells w' r ! nat (segment (minimizators c ! k) - 1)
           = astype (diag_density_new (stdout w' ! (length (stdout w) + k)))
     \<and> fst (upd (minimizators c ! k)
            (diag_density (stdout w' ! (length (stdout w) + k)))
            (diag_value (stdout w' ! (length (stdout w) + k))))
         = Inr (diag_density_new (stdout w' ! (length (stdout w) + k)))
     \<and> segment (minimizators c ! k) \<le> int (length (cells w' r))
     \<and> (astype (diag_density_new (stdout w' ! (length (stdout w) + k)))
           = diag_density_new (stdout w' ! (length (stdout w) + k))
         \<longrightarrow> cells w' r ! nat (segment (minimizators c ! k) - 1)
           = diag_density_new (stdout w' ! (length (stdout w) + k)))"
proof -
  let ?w0 = "snd (array_copy D w)" and ?ms = "minimizators c"
  let ?s = "segment (?ms ! k)"
  note r = update_Inr(1) [OF assms(1)] and l = update_Inr(2) [OF assms(1)]
  have d: "r < next_ref ?w0" by (simp add: array_copy_simps r)
  from update_loop_entry [OF l d assms(3)] obtain pre w1 w2 post v i dn where
    "update_loop astype upd (take k ?ms) r S ?w0 = (Inr (), pre, w1)"
    and post: "update_loop astype upd (drop (Suc k) ?ms) r S w2 = (Inr (), post, w')"
    and d2: "r < next_ref w2"
    and i: "py_index (length (cells w1 r)) (?s - 1) = Inr i"
    and u: "fst (upd (?ms ! k) (cells w1 r ! i) v) = Inr dn"
    and c2: "cells w2 r = (cells w1 r)[i := astype dn]"
    and e: "stdout w' ! (length (stdout ?w0) + k)
       = \<lparr>diag_segment = ?s, diag_value_name = value_name (?ms ! k),
          diag_value = v, diag_density = cells w1 r ! i, diag_density_new = dn\<rparr>"
    by blast
  from e have e': "stdout w' ! (length (stdout w) + k)
       = \<lparr>diag_segment = ?s, diag_value_name = value_name (?ms ! k),
          diag_value = v, diag_density = cells w1 r ! i, diag_density_new = dn\<rparr>"
    by (simp add: array_copy_simps)
  from assms(2,3) have s1: "1 \<le> ?s" by simp
  with i have i': "i = nat (?s - 1)" and len: "?s \<le> int (length (cells w1 r))"
    by (simp_all add: py_index_segment split: if_splits)
  have rest: "\<forall>m\<in>set (drop (Suc k) ?ms). 1 \<le> segment m"
    using assms(2) by (meson in_set_dropD)
  have "int i + 1 \<notin> segment ` set (drop (Suc k) ?ms)"
    using nth_drop_segments [OF assms(4)] s1 i' by simp
  from update_loop_pass [OF post d2 rest this]
  have "cells w' r ! i = cells w2 r ! i" .
  also have "\<dots> = astype dn" using c2 i' len s1 by simp
  finally have out: "cells w' r ! nat (?s - 1) = astype dn" using i' by simp
  from update_loop_frame [OF post] d2 c2
  have "length (cells w' r) = length (cells w1 r)" by simp
  with len out u show ?thesis unfolding e' by simp
qed

theorem update_last_unit_wins_witness:
  "segments ex_shared = [1, 1]
   \<and> diag_density_new
        (stdout (snd (snd (update ex_int64 ex_unit_update ex_shared 0 ex_surface ex_int_world))) ! 1)
       = 57
   \<and> cells (snd (snd (update ex_int64 ex_unit_update ex_shared 0 ex_surface ex_int_world))) 3 ! 0
       = ex_int64 57
   \<and> cells (snd (snd (update ex_float64 ex_unit_update ex_shared 0 ex_surface ex_world))) 3 ! 0
       = 14
   \<and> diag_density_new
        (stdout (snd (snd (update ex_float64 ex_unit_update ex_shared 0 ex_surface ex_world))) ! 1)
       = 14"
proof -
  have 1: "\<forall>m\<in>set (minimizators ex_shared). 1 \<le> segment m"
    by (simp add: ex_defs)
  have 2: "1 < length (minimizators ex_shared)" by (simp add: ex_defs)
  have 3: "\<forall>i. 1 < i \<and> i < length (minimizators ex_shared)
           \<longrightarrow> segment (minimizators ex_shared ! i) \<noteq> segment (minimizators ex_shared ! 1)"
    by (simp add: ex_defs)
  show ?thesis
    using update_last_unit_wins [OF ex_int_run 1 2 3]
      update_last_unit_wins [OF ex_shared_run 1 2 3]
    by (simp add: ex_int_run ex_shared_run) (simp add: ex_defs segments_def)
qed

text \<open>
  On a float32 vector the output is not the new density the last unit produced: the
  unit returns \<^verbatim>\<open>5.75 - 2**-25\<close> and the vector holds \<open>5.75\<close>.
\<close>

theorem update_last_unit_wins_counterexample:
  "segments ex_shared = [1, 1]
   \<and> diag_density_new
        (stdout (snd (snd (update ex_float32 ex_real_update ex_shared 0 ex_surface
           ex_float32_world))) ! 1)
       = 192937983 / 33554432
   \<and> cells (snd (snd (update ex_float32 ex_real_update ex_shared 0 ex_surface
           ex_float32_world))) 3 ! 0
       = 23 / 4
   \<and> cells (snd (snd (update ex_float32 ex_real_update ex_shared 0 ex_surface
           ex_float32_world))) 3 ! 0
       \<noteq> diag_density_new
        (stdout (snd (snd (update ex_float32 ex_real_update ex_shared 0 ex_surface
           ex_float32_world))) ! 1)"
  by (simp add: ex_float32_run) (simp add: ex_defs segments_def)





section \<open>Positions\<close>

text \<open>
  C5. Segments count from 1 and the arrays from 0. In the turn of a unit of segment
  \<open>s \<ge> 1\<close>, which takes the store from \<open>w1\<close> to \<open>w2\<close>, the measured value is the
  element at position \<open>s - 1\<close> of the channel's array, the density passed to the unit
  is the element at position \<open>s - 1\<close> of the copy, and the copy afterwards differs from
  the copy before by the new density written, as converted to the vector's element
  type, at position \<open>s - 1\<close>.
\<close>

theorem update_positions:
  assumes "update astype upd c D S w = (Inr r, c', w')"
    and "ptp_mean_per_segment S < next_ref w" and "lat_mean_per_segment S < next_ref w"
    and "k < length (minimizators c)"
    and "1 \<le> segment (minimizators c ! k)"
  shows "\<exists>pre w1 m' w2 v dn.
      update_loop astype upd (take k (minimizators c)) r S (snd (array_copy D w)) = (Inr (), pre, w1)
    \<and> update_body astype upd (minimizators c ! k) r S w1 = (Inr (), m', w2)
    \<and> (value_name (minimizators c ! k) = ''PtP'' \<or> value_name (minimizators c ! k) = ''LAT'')
    \<and> (value_name (minimizators c ! k) = ''PtP'' \<longrightarrow>
          segment (minimizators c ! k) \<le> int (length (cells w (ptp_mean_per_segment S)))
        \<and> v = cells w (ptp_mean_per_segment S) ! nat (segment (minimizators c ! k) - 1))
    \<and> (value_name (minimizators c ! k) = ''LAT'' \<longrightarrow>
          segment (minimizators c ! k) \<le> int (length (cells w (lat_mean_per_segment S)))
        \<and> v = - (cells w (lat_mean_per_segment S) ! nat (segment (minimizators c ! k) - 1)))
    \<and> segment (minimizators c ! k) \<le> int (length (cells w1 r))
    \<and> fst (upd (minimizators c ! k) (cells w1 r ! nat (segment (minimizators c ! k) - 1)) v)
        = Inr dn
    \<and> cells w2 r = (cells w1 r)[nat (segment (minimizators c ! k) - 1) := astype dn]"
proof -
  let ?w0 = "snd (array_copy D w)" and ?ms = "minimizators c"
  let ?s = "segment (?ms ! k)"
  note r = update_Inr(1) [OF assms(1)] and l = update_Inr(2) [OF assms(1)]
  have d: "r < next_ref ?w0" by (simp add: array_copy_simps r)
  from update_loop_entry [OF l d assms(4)] obtain pre w1 m' w2 v i dn where
    pre: "update_loop astype upd (take k ?ms) r S ?w0 = (Inr (), pre, w1)"
    and body: "update_body astype upd (?ms ! k) r S w1 = (Inr (), m', w2)"
    and fr: "\<forall>q. q < next_ref ?w0 \<longrightarrow> q \<noteq> r \<longrightarrow> cells w1 q = cells ?w0 q"
    and ch: "value_name (?ms ! k) = ''PtP''
       \<and> getitem (cells w1 (ptp_mean_per_segment S)) (?s - 1) = Inr v
     \<or> value_name (?ms ! k) = ''LAT''
       \<and> (\<exists>x. getitem (cells w1 (lat_mean_per_segment S)) (?s - 1) = Inr x \<and> v = - x)"
    and i: "py_index (length (cells w1 r)) (?s - 1) = Inr i"
    and u: "fst (upd (?ms ! k) (cells w1 r ! i) v) = Inr dn"
    and c2: "cells w2 r = (cells w1 r)[i := astype dn]"
    by blast
  have p: "cells w1 (ptp_mean_per_segment S) = cells w (ptp_mean_per_segment S)"
    using fr assms(2) by (simp add: array_copy_simps r)
  have q: "cells w1 (lat_mean_per_segment S) = cells w (lat_mean_per_segment S)"
    using fr assms(3) by (simp add: array_copy_simps r)
  from i assms(5) have i': "i = nat (?s - 1)" and len: "?s \<le> int (length (cells w1 r))"
    by (simp_all add: py_index_segment split: if_splits)
  have g: "getitem xs (?s - 1) = Inr y \<Longrightarrow> ?s \<le> int (length xs) \<and> y = xs ! nat (?s - 1)"
    for xs y
    using assms(5) by (auto simp: getitem_def py_index_segment split: if_splits)
  have 1: "value_name (?ms ! k) = ''PtP'' \<or> value_name (?ms ! k) = ''LAT''"
    using ch by blast
  have 2: "value_name (?ms ! k) = ''PtP'' \<longrightarrow>
          ?s \<le> int (length (cells w (ptp_mean_per_segment S)))
        \<and> v = cells w (ptp_mean_per_segment S) ! nat (?s - 1)"
    using ch g [of "cells w (ptp_mean_per_segment S)" v] by (auto simp: p)
  have 3: "value_name (?ms ! k) = ''LAT'' \<longrightarrow>
          ?s \<le> int (length (cells w (lat_mean_per_segment S)))
        \<and> v = - (cells w (lat_mean_per_segment S) ! nat (?s - 1))"
    using ch g [of "cells w (lat_mean_per_segment S)"] by (auto simp: q)
  from pre body 1 2 3 len u c2 show ?thesis unfolding i' by blast
qed

theorem update_positions_witness:
  "\<exists>pre w1 m' w2 v dn.
      update_loop ex_float64 ex_unit_update (take 1 (minimizators ex_collection)) 3 ex_surface
        (snd (array_copy 0 ex_world)) = (Inr (), pre, w1)
    \<and> update_body ex_float64 ex_unit_update (minimizators ex_collection ! 1) 3 ex_surface w1
        = (Inr (), m', w2)
    \<and> v = - (cells ex_world 2 ! 1) \<and> v = - 8
    \<and> fst (ex_unit_update (minimizators ex_collection ! 1) (cells w1 3 ! 1) v) = Inr dn
    \<and> cells w2 3 = (cells w1 3)[1 := ex_float64 dn]"
proof -
  have p: "ptp_mean_per_segment ex_surface < next_ref ex_world"
    and l: "lat_mean_per_segment ex_surface < next_ref ex_world"
    by (simp_all add: ex_defs)
  have k: "1 < length (minimizators ex_collection)" by (simp add: ex_defs)
  have s: "1 \<le> segment (minimizators ex_collection ! 1)" by (simp add: ex_defs)
  have n: "value_name (minimizators ex_collection ! 1) = ''LAT''"
    and s2: "nat (segment (minimizators ex_collection ! 1) - 1) = 1"
    and l2: "lat_mean_per_segment ex_surface = 2"
    and c: "cells ex_world 2 ! 1 = 8"
    by (simp_all add: ex_defs)
  from update_positions [OF ex_collection_run p l k s]
  show ?thesis unfolding n s2 l2 c by auto
qed

section \<open>Two runs\<close>

text \<open>
  What one turn of the loop returns, and what it leaves in the copy, depend on the
  unit's segment and channel, on the content of the three arrays and on the result of
  the unit's update, and on nothing else.
\<close>

lemma update_body_result:
  assumes "d < next_ref w"
  shows "fst (update_body astype upd m d S w)
      = (case (if value_name m = ''LAT'' then Some (map uminus (cells w (lat_mean_per_segment S)))
               else if value_name m = ''PtP'' then Some (cells w (ptp_mean_per_segment S))
               else None) of
           None \<Rightarrow> Inl UnboundLocalError
         | Some vs \<Rightarrow>
            (case getitem vs (segment m - 1) of Inl e \<Rightarrow> Inl e
             | Inr v \<Rightarrow> (case getitem (cells w d) (segment m - 1) of Inl e \<Rightarrow> Inl e
                | Inr x \<Rightarrow> (case fst (upd m x v) of Inl e \<Rightarrow> Inl e | Inr y \<Rightarrow> Inr ()))))"
  using assms
  by (auto simp: update_body_def update_minimizator_def setitem_def array_neg_def alloc_def
      print_def getitem_def Let_def split: sum.splits prod.splits option.splits)

lemma update_body_cells:
  assumes "d < next_ref w"
  shows "cells (snd (snd (update_body astype upd m d S w))) d
      = (case (if value_name m = ''LAT'' then Some (map uminus (cells w (lat_mean_per_segment S)))
               else if value_name m = ''PtP'' then Some (cells w (ptp_mean_per_segment S))
               else None) of
           None \<Rightarrow> cells w d
         | Some vs \<Rightarrow>
            (case getitem vs (segment m - 1) of Inl e \<Rightarrow> cells w d
             | Inr v \<Rightarrow> (case getitem (cells w d) (segment m - 1) of Inl e \<Rightarrow> cells w d
                | Inr x \<Rightarrow> (case fst (upd m x v) of Inl e \<Rightarrow> cells w d
                   | Inr y \<Rightarrow> (case py_index (length (cells w d)) (segment m - 1) of
                        Inl e \<Rightarrow> cells w d | Inr k \<Rightarrow> (cells w d)[k := astype y])))))"
  using assms
  by (auto simp: update_body_def update_minimizator_def setitem_def array_neg_def alloc_def
      print_def getitem_def Let_def split: sum.splits prod.splits option.splits)

lemma update_body_agree:
  assumes det: "\<forall>m m' x v. segment m = segment m' \<and> value_name m = value_name m'
            \<longrightarrow> fst (upd m x v) = fst (upd m' x v)"
    and "segment m1 = segment m2" and "value_name m1 = value_name m2"
    and "d1 < next_ref w1" and "d2 < next_ref w2"
    and "cells w1 d1 = cells w2 d2"
    and "cells w1 (ptp_mean_per_segment S1) = cells w2 (ptp_mean_per_segment S2)"
    and "cells w1 (lat_mean_per_segment S1) = cells w2 (lat_mean_per_segment S2)"
    and "update_body astype upd m1 d1 S1 w1 = (r1, m1', w1')"
    and "update_body astype upd m2 d2 S2 w2 = (r2, m2', w2')"
  shows "r1 = r2 \<and> cells w1' d1 = cells w2' d2"
proof -
  from det assms(2,3) have u: "\<And>x v. fst (upd m1 x v) = fst (upd m2 x v)" by blast
  have "fst (update_body astype upd m1 d1 S1 w1) = fst (update_body astype upd m2 d2 S2 w2)"
    by (simp only: update_body_result [OF assms(4)] update_body_result [OF assms(5)]
        assms(2,3,6,7,8) u)
  moreover have "cells (snd (snd (update_body astype upd m1 d1 S1 w1))) d1
      = cells (snd (snd (update_body astype upd m2 d2 S2 w2))) d2"
    by (simp only: update_body_cells [OF assms(4)] update_body_cells [OF assms(5)]
        assms(2,3,6,7,8) u)
  ultimately show ?thesis using assms(9,10) by simp
qed

lemma update_loop_agree:
  assumes det: "\<forall>m m' x v. segment m = segment m' \<and> value_name m = value_name m'
            \<longrightarrow> fst (upd m x v) = fst (upd m' x v)"
    and "map segment ms1 = map segment ms2" and "map value_name ms1 = map value_name ms2"
    and "d1 < next_ref w1" and "d2 < next_ref w2"
    and "ptp_mean_per_segment S1 < next_ref w1" and "ptp_mean_per_segment S1 \<noteq> d1"
    and "lat_mean_per_segment S1 < next_ref w1" and "lat_mean_per_segment S1 \<noteq> d1"
    and "ptp_mean_per_segment S2 < next_ref w2" and "ptp_mean_per_segment S2 \<noteq> d2"
    and "lat_mean_per_segment S2 < next_ref w2" and "lat_mean_per_segment S2 \<noteq> d2"
    and "cells w1 d1 = cells w2 d2"
    and "cells w1 (ptp_mean_per_segment S1) = cells w2 (ptp_mean_per_segment S2)"
    and "cells w1 (lat_mean_per_segment S1) = cells w2 (lat_mean_per_segment S2)"
    and "update_loop astype upd ms1 d1 S1 w1 = (r1, ms1', w1')"
    and "update_loop astype upd ms2 d2 S2 w2 = (r2, ms2', w2')"
  shows "r1 = r2 \<and> cells w1' d1 = cells w2' d2"
  using assms(2-)
proof (induction ms1 arbitrary: ms2 w1 w2 r1 r2 ms1' ms2' w1' w2')
  case Nil
  then show ?case by simp
next
  case (Cons m1 ms1)
  from Cons.prems(1) obtain m2 rest2 where ms2: "ms2 = m2 # rest2"
    and seg: "segment m1 = segment m2" "map segment ms1 = map segment rest2"
    by (cases ms2) auto
  from Cons.prems(2) ms2 have nam: "value_name m1 = value_name m2"
    "map value_name ms1 = map value_name rest2" by auto
  obtain b1 n1 v1 where b1: "update_body astype upd m1 d1 S1 w1 = (b1, n1, v1)"
    by (cases "update_body astype upd m1 d1 S1 w1") auto
  obtain b2 n2 v2 where b2: "update_body astype upd m2 d2 S2 w2 = (b2, n2, v2)"
    by (cases "update_body astype upd m2 d2 S2 w2") auto
  from update_body_agree [OF det seg(1) nam(1) Cons.prems(3,4,13,14,15) b1 b2]
  have eq: "b1 = b2" "cells v1 d1 = cells v2 d2" by simp_all
  note f1 = update_body_frame [OF b1] and f2 = update_body_frame [OF b2]
  show ?case
  proof (cases b1)
    case (Inl e)
    with eq Cons.prems(16,17) b1 b2 ms2 show ?thesis by auto
  next
    case (Inr u)
    obtain q1 k1 x1 where l1: "update_loop astype upd ms1 d1 S1 v1 = (q1, k1, x1)"
      by (cases "update_loop astype upd ms1 d1 S1 v1") auto
    obtain q2 k2 x2 where l2: "update_loop astype upd rest2 d2 S2 v2 = (q2, k2, x2)"
      by (cases "update_loop astype upd rest2 d2 S2 v2") auto
    have "q1 = q2 \<and> cells x1 d1 = cells x2 d2"
    proof (rule Cons.IH [OF seg(2) nam(2) _ _ _ _ _ _ _ _ _ _ _ _ _ l1 l2])
      show "d1 < next_ref v1" "d2 < next_ref v2"
        using f1(1) f2(1) Cons.prems(3,4) by simp_all
      show "ptp_mean_per_segment S1 < next_ref v1" "lat_mean_per_segment S1 < next_ref v1"
        "ptp_mean_per_segment S2 < next_ref v2" "lat_mean_per_segment S2 < next_ref v2"
        using f1(1) f2(1) Cons.prems(5,7,9,11) by simp_all
      show "ptp_mean_per_segment S1 \<noteq> d1" "lat_mean_per_segment S1 \<noteq> d1"
        "ptp_mean_per_segment S2 \<noteq> d2" "lat_mean_per_segment S2 \<noteq> d2"
        using Cons.prems(6,8,10,12) by simp_all
      show "cells v1 d1 = cells v2 d2" by (rule eq(2))
      show "cells v1 (ptp_mean_per_segment S1) = cells v2 (ptp_mean_per_segment S2)"
        using f1(2) [OF Cons.prems(5,6)] f2(2) [OF Cons.prems(9,10)] Cons.prems(14) by simp
      show "cells v1 (lat_mean_per_segment S1) = cells v2 (lat_mean_per_segment S2)"
        using f1(2) [OF Cons.prems(7,8)] f2(2) [OF Cons.prems(11,12)] Cons.prems(15) by simp
    qed
    moreover from Cons.prems(16) b1 Inr l1 have "r1 = q1" "w1' = x1" by auto
    moreover from Cons.prems(17) b2 eq(1) Inr l2 ms2 have "r2 = q2" "w2' = x2" by auto
    ultimately show ?thesis by simp
  qed
qed

lemma update_cases:
  assumes "update astype upd c D S w = (res, c', w')"
  shows "\<exists>q ms. update_loop astype upd (minimizators c) (next_ref w) S (snd (array_copy D w))
            = (q, ms, w')
          \<and> res = (case q of Inl e \<Rightarrow> Inl e | Inr u \<Rightarrow> Inr (next_ref w))"
  using assms
  by (auto simp: update_def array_copy_def alloc_def split: sum.splits prod.splits)

text \<open>
  C8. Two calls of \<^verbatim>\<open>update\<close> with the same densities and the same snapshot give the
  same vector, or raise the same exception, when the units' updates are deterministic:
  when what a unit's update returns depends on its segment, its channel and its two
  arguments only, not on the state the unit is in. The two calls may start from different
  stores and from collections whose units are in different states (as the second of two
  calls in a row does), as long as the units' segments and channels, the contents of
  the three arrays and the element type of the density vector (\<open>astype\<close>) are the same.
\<close>

theorem update_deterministic:
  assumes "\<forall>m m' x v. segment m = segment m' \<and> value_name m = value_name m'
            \<longrightarrow> fst (upd m x v) = fst (upd m' x v)"
    and "segments c1 = segments c2" and "value_names c1 = value_names c2"
    and "ptp_mean_per_segment S1 < next_ref w1" and "lat_mean_per_segment S1 < next_ref w1"
    and "ptp_mean_per_segment S2 < next_ref w2" and "lat_mean_per_segment S2 < next_ref w2"
    and "cells w1 D1 = cells w2 D2"
    and "cells w1 (ptp_mean_per_segment S1) = cells w2 (ptp_mean_per_segment S2)"
    and "cells w1 (lat_mean_per_segment S1) = cells w2 (lat_mean_per_segment S2)"
    and "update astype upd c1 D1 S1 w1 = (res1, c1', w1')"
    and "update astype upd c2 D2 S2 w2 = (res2, c2', w2')"
  shows "map_sum id (cells w1') res1 = map_sum id (cells w2') res2"
proof -
  let ?v1 = "snd (array_copy D1 w1)" and ?v2 = "snd (array_copy D2 w2)"
  from update_cases [OF assms(11)] obtain q1 k1 where
    l1: "update_loop astype upd (minimizators c1) (next_ref w1) S1 ?v1 = (q1, k1, w1')"
    and r1: "res1 = (case q1 of Inl e \<Rightarrow> Inl e | Inr u \<Rightarrow> Inr (next_ref w1))"
    by blast
  from update_cases [OF assms(12)] obtain q2 k2 where
    l2: "update_loop astype upd (minimizators c2) (next_ref w2) S2 ?v2 = (q2, k2, w2')"
    and r2: "res2 = (case q2 of Inl e \<Rightarrow> Inl e | Inr u \<Rightarrow> Inr (next_ref w2))"
    by blast
  have "q1 = q2 \<and> cells w1' (next_ref w1) = cells w2' (next_ref w2)"
  proof (rule update_loop_agree [OF assms(1) _ _ _ _ _ _ _ _ _ _ _ _ _ _ _ l1 l2])
    show "map segment (minimizators c1) = map segment (minimizators c2)"
      "map value_name (minimizators c1) = map value_name (minimizators c2)"
      using assms(2,3) by (simp_all add: segments_def value_names_def)
    show "next_ref w1 < next_ref ?v1" "next_ref w2 < next_ref ?v2"
      by (simp_all add: array_copy_simps)
    show "ptp_mean_per_segment S1 < next_ref ?v1" "lat_mean_per_segment S1 < next_ref ?v1"
      "ptp_mean_per_segment S2 < next_ref ?v2" "lat_mean_per_segment S2 < next_ref ?v2"
      using assms(4-7) by (simp_all add: array_copy_simps)
    show "ptp_mean_per_segment S1 \<noteq> next_ref w1" "lat_mean_per_segment S1 \<noteq> next_ref w1"
      "ptp_mean_per_segment S2 \<noteq> next_ref w2" "lat_mean_per_segment S2 \<noteq> next_ref w2"
      using assms(4-7) by simp_all
    show "cells ?v1 (next_ref w1) = cells ?v2 (next_ref w2)"
      using assms(8) by (simp add: array_copy_simps)
    show "cells ?v1 (ptp_mean_per_segment S1) = cells ?v2 (ptp_mean_per_segment S2)"
      "cells ?v1 (lat_mean_per_segment S1) = cells ?v2 (lat_mean_per_segment S2)"
      using assms(4-7,9,10) by (simp_all add: array_copy_simps)
  qed
  with r1 r2 show ?thesis by (cases q2) simp_all
qed

theorem update_deterministic_witness:
  "fst (update ex_float64 ex_unit_update ex_collection 0 ex_surface ex_world) = Inr 3
   \<and> cells (snd (snd (update ex_float64 ex_unit_update ex_collection 0 ex_surface ex_world))) 3 = [17, - 3]
   \<and> map internal (minimizators
        (fst (snd (update ex_float64 ex_unit_update ex_collection 0 ex_surface ex_world)))) = [1, 1]
   \<and> map_sum id
        (cells (snd (snd (update ex_float64 ex_unit_update
           (fst (snd (update ex_float64 ex_unit_update ex_collection 0 ex_surface ex_world)))
           0 ex_surface
           (snd (snd (update ex_float64 ex_unit_update ex_collection 0 ex_surface ex_world)))))))
        (fst (update ex_float64 ex_unit_update
           (fst (snd (update ex_float64 ex_unit_update ex_collection 0 ex_surface ex_world)))
           0 ex_surface
           (snd (snd (update ex_float64 ex_unit_update ex_collection 0 ex_surface ex_world)))))
       = Inr [17, - 3]"
proof -
  let ?X = "update ex_float64 ex_unit_update ex_collection 0 ex_surface ex_world"
  let ?c = "fst (snd ?X)" and ?w = "snd (snd ?X)"
  let ?Y = "update ex_float64 ex_unit_update ?c 0 ex_surface ?w"
  have det: "\<forall>m m' x v. segment m = segment m' \<and> value_name m = value_name m'
      \<longrightarrow> fst (ex_unit_update m x v) = fst (ex_unit_update m' x v)"
    by (simp add: ex_unit_update_def)
  have segs: "segments ex_collection = segments ?c"
    and names: "value_names ex_collection = value_names ?c"
    by (simp_all add: ex_collection_run segments_def value_names_def)
      (simp_all add: ex_defs)
  have p1: "ptp_mean_per_segment ex_surface < next_ref ex_world"
    and l1: "lat_mean_per_segment ex_surface < next_ref ex_world"
    by (simp_all add: ex_defs)
  have p2: "ptp_mean_per_segment ex_surface < next_ref ?w"
    and l2: "lat_mean_per_segment ex_surface < next_ref ?w"
    by (simp_all add: ex_collection_run) (simp_all add: ex_defs)
  have D: "cells ex_world 0 = cells ?w 0"
    and P: "cells ex_world (ptp_mean_per_segment ex_surface)
          = cells ?w (ptp_mean_per_segment ex_surface)"
    and L: "cells ex_world (lat_mean_per_segment ex_surface)
          = cells ?w (lat_mean_per_segment ex_surface)"
    by (simp_all add: ex_collection_run) (simp_all add: ex_defs)
  have X: "?X = (fst ?X, ?c, ?w)" and Y: "?Y = (fst ?Y, fst (snd ?Y), snd (snd ?Y))"
    by simp_all
  from update_deterministic [OF det segs names p1 l1 p2 l2 D P L X Y]
  have "map_sum id (cells (snd (snd ?Y))) (fst ?Y) = map_sum id (cells ?w) (fst ?X)"
    by simp
  then show ?thesis by (simp add: ex_collection_run)
qed

section \<open>Exceptions\<close>

lemma update_minimizator_unknown:
  assumes "value_name m \<noteq> ''PtP''" and "value_name m \<noteq> ''LAT''"
  shows "update_minimizator upd m d S w = (Inl UnboundLocalError, m, w)"
  using assms by (simp add: update_minimizator_def)

lemma update_loop_unknown:
  assumes "\<exists>m\<in>set ms. value_name m \<noteq> ''PtP'' \<and> value_name m \<noteq> ''LAT''"
  shows "\<exists>e. fst (update_loop astype upd ms d S w) = Inl e"
  using assms
proof (induction ms arbitrary: w)
  case Nil
  then show ?case by simp
next
  case (Cons m ms)
  obtain b m1 w1 where b: "update_body astype upd m d S w = (b, m1, w1)"
    by (cases "update_body astype upd m d S w") auto
  show ?case
  proof (cases b)
    case (Inl e)
    with b show ?thesis by simp
  next
    case (Inr u)
    have "value_name m = ''PtP'' \<or> value_name m = ''LAT''"
    proof (rule ccontr)
      assume "\<not> ?thesis"
      then have "update_minimizator upd m d S w = (Inl UnboundLocalError, m, w)"
        by (simp add: update_minimizator_unknown)
      with b Inr show False by (simp add: update_body_def)
    qed
    with Cons.prems have "\<exists>m\<in>set ms. value_name m \<noteq> ''PtP'' \<and> value_name m \<noteq> ''LAT''"
      by auto
    from Cons.IH [OF this, of w1] obtain e where "fst (update_loop astype upd ms d S w1) = Inl e"
      by blast
    with b Inr show ?thesis by (auto split: prod.splits)
  qed
qed

lemma update_loop_first_failure:
  assumes "update_loop astype upd (take k ms) d S w = (Inr (), pre, w1)" and "k < length ms"
    and "fst (update_body astype upd (ms ! k) d S w1) = Inl e"
  shows "fst (update_loop astype upd ms d S w) = Inl e"
  using assms
proof (induction ms arbitrary: k w pre)
  case Nil
  then show ?case by simp
next
  case (Cons m ms)
  show ?case
  proof (cases k)
    case 0
    with Cons.prems show ?thesis by (auto split: sum.splits prod.splits)
  next
    case (Suc j)
    with Cons.prems(1) obtain m1 wa pa where
      b: "update_body astype upd m d S w = (Inr (), m1, wa)"
      and l: "update_loop astype upd (take j ms) d S wa = (Inr (), pa, w1)"
      by (auto split: sum.splits prod.splits)
    from Cons.prems(2,3) Suc have "j < length ms" "fst (update_body astype upd (ms ! j) d S w1) = Inl e"
      by simp_all
    from Cons.IH [OF l this] b show ?thesis by (auto split: prod.splits)
  qed
qed

lemma update_body_bound:
  assumes "value_name m = ''PtP'' \<or> value_name m = ''LAT''"
    and "\<forall>m x v. fst (upd m x v) \<noteq> Inl UnboundLocalError"
    and "d < next_ref w"
  shows "fst (update_body astype upd m d S w) \<noteq> Inl UnboundLocalError"
  using assms
  by (auto simp: update_body_result getitem_def py_index_def split: sum.splits)

lemma update_loop_bound:
  assumes "\<forall>m\<in>set ms. value_name m = ''PtP'' \<or> value_name m = ''LAT''"
    and "\<forall>m x v. fst (upd m x v) \<noteq> Inl UnboundLocalError"
    and "d < next_ref w"
  shows "fst (update_loop astype upd ms d S w) \<noteq> Inl UnboundLocalError"
  using assms
proof (induction ms arbitrary: w)
  case Nil
  then show ?case by simp
next
  case (Cons m ms)
  obtain b m1 w1 where b: "update_body astype upd m d S w = (b, m1, w1)"
    by (cases "update_body astype upd m d S w") auto
  from update_body_bound [OF _ Cons.prems(2,3), where m = m and S = S and astype = astype]
    Cons.prems(1) b
  have nb: "b \<noteq> Inl UnboundLocalError" by simp
  from update_body_frame(1) [OF b] Cons.prems(3) have "d < next_ref w1" by simp
  with Cons.IH [of w1] Cons.prems(1,2)
  have "fst (update_loop astype upd ms d S w1) \<noteq> Inl UnboundLocalError" by simp
  with b nb show ?case by (cases b) (auto split: prod.splits)
qed

lemma update_body_total:
  assumes "value_name m = ''PtP'' \<or> value_name m = ''LAT''"
    and "1 \<le> segment m"
    and "segment m \<le> int (length (cells w d))"
    and "segment m \<le> int (length (cells w (ptp_mean_per_segment S)))"
    and "segment m \<le> int (length (cells w (lat_mean_per_segment S)))"
    and "\<forall>m x v. \<exists>y. fst (upd m x v) = Inr y"
    and "d < next_ref w"
  shows "fst (update_body astype upd m d S w) = Inr ()"
proof -
  have g: "getitem xs (segment m - 1) = Inr (xs ! nat (segment m - 1))"
    if "segment m \<le> int (length xs)" for xs :: "'c list"
    using that assms(2) by (simp add: getitem_def py_index_segment)
  from assms(6) obtain y where
    "fst (upd m (cells w d ! nat (segment m - 1))
       (if value_name m = ''LAT''
        then map uminus (cells w (lat_mean_per_segment S)) ! nat (segment m - 1)
        else cells w (ptp_mean_per_segment S) ! nat (segment m - 1))) = Inr y"
    by blast
  then show ?thesis
    using assms(1,3,4,5) by (auto simp: update_body_result [OF assms(7)] g)
qed

lemma update_loop_total:
  assumes "\<forall>m\<in>set ms. (value_name m = ''PtP'' \<or> value_name m = ''LAT'')
            \<and> 1 \<le> segment m \<and> segment m \<le> int n"
    and "n \<le> length (cells w d)"
    and "n \<le> length (cells w (ptp_mean_per_segment S))"
    and "n \<le> length (cells w (lat_mean_per_segment S))"
    and "\<forall>m x v. \<exists>y. fst (upd m x v) = Inr y"
    and "d < next_ref w"
    and "ptp_mean_per_segment S < next_ref w" and "ptp_mean_per_segment S \<noteq> d"
    and "lat_mean_per_segment S < next_ref w" and "lat_mean_per_segment S \<noteq> d"
  shows "fst (update_loop astype upd ms d S w) = Inr ()"
  using assms
proof (induction ms arbitrary: w)
  case Nil
  then show ?case by simp
next
  case (Cons m ms)
  obtain b m1 w1 where b: "update_body astype upd m d S w = (b, m1, w1)"
    by (cases "update_body astype upd m d S w") auto
  note f = update_body_frame [OF b]
  have "fst (update_body astype upd m d S w) = Inr ()"
    using Cons.prems(1-4) by (intro update_body_total [OF _ _ _ _ _ Cons.prems(5,6)]) auto
  with b have ok: "b = Inr ()" by simp
  have "fst (update_loop astype upd ms d S w1) = Inr ()"
  proof (rule Cons.IH [OF _ _ _ _ Cons.prems(5)])
    show "\<forall>m\<in>set ms. (value_name m = ''PtP'' \<or> value_name m = ''LAT'')
            \<and> 1 \<le> segment m \<and> segment m \<le> int n"
      using Cons.prems(1) by simp
    show "n \<le> length (cells w1 d)" using f(3) [OF Cons.prems(6)] Cons.prems(2) by simp
    show "n \<le> length (cells w1 (ptp_mean_per_segment S))"
      using f(2) [OF Cons.prems(7,8)] Cons.prems(3) by simp
    show "n \<le> length (cells w1 (lat_mean_per_segment S))"
      using f(2) [OF Cons.prems(9,10)] Cons.prems(4) by simp
    show "d < next_ref w1" "ptp_mean_per_segment S < next_ref w1"
      "lat_mean_per_segment S < next_ref w1"
      using f(1) Cons.prems(6,7,9) by simp_all
    show "ptp_mean_per_segment S \<noteq> d" "lat_mean_per_segment S \<noteq> d"
      using Cons.prems(8,10) by simp_all
  qed
  with b ok show ?case by (auto split: prod.splits)
qed

lemma update_fst:
  "fst (update astype upd c D S w)
     = (case fst (update_loop astype upd (minimizators c) (next_ref w) S (snd (array_copy D w))) of
          Inl e \<Rightarrow> Inl e | Inr u \<Rightarrow> Inr (next_ref w))"
  by (auto simp: update_def array_copy_def alloc_def split: sum.splits prod.splits)

text \<open>
  C6, amended. A unit whose channel is neither \<open>PtP\<close> nor \<open>LAT\<close> leaves
  \<^verbatim>\<open>values\<close> unbound: its update raises \<open>UnboundLocalError\<close>, with the unit and the
  store as they were. \<^verbatim>\<open>update\<close> on a collection with such a unit raises, and what it
  raises is \<open>UnboundLocalError\<close> when the units before that one were updated without
  an exception. When every channel is \<open>PtP\<close> or \<open>LAT\<close>, \<^verbatim>\<open>update\<close> does not raise
  \<open>UnboundLocalError\<close> (unless a unit's own update does). It raises nothing at all,
  and returns the copy, when moreover every segment is between 1 and the lengths of the
  density vector and of the two measurement arrays, the snapshot's arrays are allocated
  and the units' own updates return.
\<close>

theorem update_exceptions:
  "(value_name m \<noteq> ''PtP'' \<and> value_name m \<noteq> ''LAT''
      \<longrightarrow> update_minimizator upd m d S w = (Inl UnboundLocalError, m, w))
   \<and> ((\<exists>m\<in>set (minimizators c). value_name m \<noteq> ''PtP'' \<and> value_name m \<noteq> ''LAT'')
      \<longrightarrow> (\<exists>e. fst (update astype upd c D S w) = Inl e))
   \<and> (k < length (minimizators c)
       \<and> value_name (minimizators c ! k) \<noteq> ''PtP'' \<and> value_name (minimizators c ! k) \<noteq> ''LAT''
       \<and> fst (update_loop astype upd (take k (minimizators c)) (next_ref w) S (snd (array_copy D w)))
           = Inr ()
      \<longrightarrow> fst (update astype upd c D S w) = Inl UnboundLocalError)
   \<and> ((\<forall>m\<in>set (minimizators c). value_name m = ''PtP'' \<or> value_name m = ''LAT'')
       \<and> (\<forall>m x v. fst (upd m x v) \<noteq> Inl UnboundLocalError)
      \<longrightarrow> fst (update astype upd c D S w) \<noteq> Inl UnboundLocalError)
   \<and> ((\<forall>m\<in>set (minimizators c). (value_name m = ''PtP'' \<or> value_name m = ''LAT'')
           \<and> 1 \<le> segment m \<and> segment m \<le> int n)
       \<and> n \<le> length (cells w D)
       \<and> n \<le> length (cells w (ptp_mean_per_segment S))
       \<and> n \<le> length (cells w (lat_mean_per_segment S))
       \<and> ptp_mean_per_segment S < next_ref w \<and> lat_mean_per_segment S < next_ref w
       \<and> (\<forall>m x v. \<exists>y. fst (upd m x v) = Inr y)
      \<longrightarrow> fst (update astype upd c D S w) = Inr (next_ref w))"
proof (intro conjI impI)
  let ?w0 = "snd (array_copy D w)" and ?r = "next_ref w"
  have d: "?r < next_ref ?w0" by (simp add: array_copy_simps)
  show "update_minimizator upd m d S w = (Inl UnboundLocalError, m, w)"
    if "value_name m \<noteq> ''PtP'' \<and> value_name m \<noteq> ''LAT''"
    using that by (simp add: update_minimizator_unknown)
  show "\<exists>e. fst (update astype upd c D S w) = Inl e"
    if "\<exists>m\<in>set (minimizators c). value_name m \<noteq> ''PtP'' \<and> value_name m \<noteq> ''LAT''"
    using update_loop_unknown [OF that, where astype = astype and upd = upd and d = ?r
        and S = S and w = ?w0]
    by (auto simp: update_fst)
  show "fst (update astype upd c D S w) = Inl UnboundLocalError"
    if h: "k < length (minimizators c)
       \<and> value_name (minimizators c ! k) \<noteq> ''PtP'' \<and> value_name (minimizators c ! k) \<noteq> ''LAT''
       \<and> fst (update_loop astype upd (take k (minimizators c)) ?r S ?w0) = Inr ()"
  proof -
    obtain pre w1 where
      pre: "update_loop astype upd (take k (minimizators c)) ?r S ?w0 = (Inr (), pre, w1)"
      using h by (cases "update_loop astype upd (take k (minimizators c)) ?r S ?w0") auto
    have "fst (update_body astype upd (minimizators c ! k) ?r S w1) = Inl UnboundLocalError"
      using h by (simp add: update_body_def update_minimizator_unknown)
    from update_loop_first_failure [OF pre _ this] h show ?thesis
      by (simp add: update_fst)
  qed
  show "fst (update astype upd c D S w) \<noteq> Inl UnboundLocalError"
    if "(\<forall>m\<in>set (minimizators c). value_name m = ''PtP'' \<or> value_name m = ''LAT'')
       \<and> (\<forall>m x v. fst (upd m x v) \<noteq> Inl UnboundLocalError)"
    using update_loop_bound [OF _ _ d, where ms = "minimizators c" and upd = upd and S = S
        and astype = astype] that
    by (auto simp: update_fst split: sum.splits)
  show "fst (update astype upd c D S w) = Inr (next_ref w)"
    if h: "(\<forall>m\<in>set (minimizators c). (value_name m = ''PtP'' \<or> value_name m = ''LAT'')
           \<and> 1 \<le> segment m \<and> segment m \<le> int n)
       \<and> n \<le> length (cells w D)
       \<and> n \<le> length (cells w (ptp_mean_per_segment S))
       \<and> n \<le> length (cells w (lat_mean_per_segment S))
       \<and> ptp_mean_per_segment S < next_ref w \<and> lat_mean_per_segment S < next_ref w
       \<and> (\<forall>m x v. \<exists>y. fst (upd m x v) = Inr y)"
  proof -
    have "fst (update_loop astype upd (minimizators c) ?r S ?w0) = Inr ()"
    proof (rule update_loop_total [where n = n])
      show "\<forall>m\<in>set (minimizators c). (value_name m = ''PtP'' \<or> value_name m = ''LAT'')
            \<and> 1 \<le> segment m \<and> segment m \<le> int n" using h by blast
      show "\<forall>m x v. \<exists>y. fst (upd m x v) = Inr y" using h by blast
      show "n \<le> length (cells ?w0 ?r)" "n \<le> length (cells ?w0 (ptp_mean_per_segment S))"
        "n \<le> length (cells ?w0 (lat_mean_per_segment S))"
        using h by (simp_all add: array_copy_simps)
      show "?r < next_ref ?w0" by (rule d)
      show "ptp_mean_per_segment S < next_ref ?w0" "lat_mean_per_segment S < next_ref ?w0"
        using h by (simp_all add: array_copy_simps)
      show "ptp_mean_per_segment S \<noteq> ?r" "lat_mean_per_segment S \<noteq> ?r"
        using h by auto
    qed
    then show ?thesis by (simp add: update_fst)
  qed
qed

theorem update_exceptions_witness:
  "update_minimizator ex_unit_update (hd (minimizators ex_unknown)) 3 ex_surface ex_world
     = (Inl UnboundLocalError, hd (minimizators ex_unknown), ex_world)
   \<and> value_names ex_unknown = [''XYZ'']
   \<and> fst (update ex_float64 ex_unit_update ex_unknown 0 ex_surface ex_world) = Inl UnboundLocalError
   \<and> value_names ex_collection = [''PtP'', ''LAT'']
   \<and> fst (update ex_float64 ex_unit_update ex_collection 0 ex_surface ex_world) \<noteq> Inl UnboundLocalError
   \<and> fst (update ex_float64 ex_unit_update ex_collection 0 ex_surface ex_world) = Inr 3"
proof -
  note A = update_exceptions [where astype = ex_float64 and upd = ex_unit_update and c = ex_unknown and D = 0
      and S = ex_surface and w = ex_world and k = 0 and m = "hd (minimizators ex_unknown)"
      and d = 3 and n = 0]
  note B = update_exceptions [where astype = ex_float64 and upd = ex_unit_update and c = ex_collection and D = 0
      and S = ex_surface and w = ex_world and k = 0 and m = "hd (minimizators ex_unknown)"
      and d = 3 and n = 2]
  have a1: "value_name (hd (minimizators ex_unknown)) \<noteq> ''PtP''
      \<and> value_name (hd (minimizators ex_unknown)) \<noteq> ''LAT''"
    by (simp add: ex_defs)
  have a2: "\<exists>m\<in>set (minimizators ex_unknown). value_name m \<noteq> ''PtP'' \<and> value_name m \<noteq> ''LAT''"
    by (simp add: ex_defs)
  have a3: "0 < length (minimizators ex_unknown)
       \<and> value_name (minimizators ex_unknown ! 0) \<noteq> ''PtP''
       \<and> value_name (minimizators ex_unknown ! 0) \<noteq> ''LAT''
       \<and> fst (update_loop ex_float64 ex_unit_update (take 0 (minimizators ex_unknown)) (next_ref ex_world)
            ex_surface (snd (array_copy 0 ex_world))) = Inr ()"
    by (simp add: ex_defs)
  have b4: "(\<forall>m\<in>set (minimizators ex_collection). value_name m = ''PtP'' \<or> value_name m = ''LAT'')
       \<and> (\<forall>m x v. fst (ex_unit_update m x v) \<noteq> Inl UnboundLocalError)"
    by (simp add: ex_defs)
  have b5: "(\<forall>m\<in>set (minimizators ex_collection).
           (value_name m = ''PtP'' \<or> value_name m = ''LAT'')
           \<and> 1 \<le> segment m \<and> segment m \<le> int 2)
       \<and> 2 \<le> length (cells ex_world 0)
       \<and> 2 \<le> length (cells ex_world (ptp_mean_per_segment ex_surface))
       \<and> 2 \<le> length (cells ex_world (lat_mean_per_segment ex_surface))
       \<and> ptp_mean_per_segment ex_surface < next_ref ex_world
       \<and> lat_mean_per_segment ex_surface < next_ref ex_world
       \<and> (\<forall>m x v. \<exists>y. fst (ex_unit_update m x v) = Inr y)"
    by (simp add: ex_defs)
  from A a1 have 1: "update_minimizator ex_unit_update (hd (minimizators ex_unknown)) 3
      ex_surface ex_world = (Inl UnboundLocalError, hd (minimizators ex_unknown), ex_world)"
    by blast
  from A a2 have "\<exists>e. fst (update ex_float64 ex_unit_update ex_unknown 0 ex_surface ex_world) = Inl e"
    by blast
  from A a3 have 3: "fst (update ex_float64 ex_unit_update ex_unknown 0 ex_surface ex_world)
      = Inl UnboundLocalError" by blast
  from B b4 have 4: "fst (update ex_float64 ex_unit_update ex_collection 0 ex_surface ex_world)
      \<noteq> Inl UnboundLocalError" by blast
  from B b5 have "fst (update ex_float64 ex_unit_update ex_collection 0 ex_surface ex_world)
      = Inr (next_ref ex_world)" by blast
  then have 5: "fst (update ex_float64 ex_unit_update ex_collection 0 ex_surface ex_world) = Inr 3"
    by (simp add: ex_world_def)
  have n: "value_names ex_unknown = [''XYZ'']" "value_names ex_collection = [''PtP'', ''LAT'']"
    by (simp_all add: value_names_def ex_defs)
  from 1 3 4 5 n show ?thesis by simp
qed

text \<open>
  Valid channels alone do not keep \<^verbatim>\<open>update\<close> from raising: a unit of segment 3 on
  arrays of length 2 raises \<open>IndexError\<close>.
\<close>

theorem update_index_error_counterexample:
  "value_names ex_far = [''PtP'']
   \<and> segments ex_far = [3]
   \<and> length (cells ex_world 0) = 2
   \<and> fst (update ex_float64 ex_unit_update ex_far 0 ex_surface ex_world) = Inl IndexError"
  by (simp add: value_names_def segments_def ex_defs run_defs)

end
